theory Spec2Isabelle
  imports Complex_Main "HOL-Library.Sublist"
begin

section \<open>Text primitives of the Python runtime\<close>

text \<open>
  Python strings are modelled as \<open>string\<close> (lists of characters, each a code point
  below 256).  The character classes and case mappings below are those of Python on these
  code points.  Two code points have a title-case above 255, the micro sign (0xB5) and
  the y with diaeresis (0xFF); \<open>str_title\<close> leaves them as they are.
\<close>

definition whitespace_chars :: "char list" where
  "whitespace_chars =
     [CHR '' '', CHR 0x09, CHR 0x0A, CHR 0x0B, CHR 0x0C, CHR 0x0D,
      CHR 0x1C, CHR 0x1D, CHR 0x1E, CHR 0x1F, CHR 0x85, CHR 0xA0]"

definition is_space :: "char \<Rightarrow> bool" where
  "is_space c = (c \<in> set whitespace_chars)"

definition digit_chars :: "char list" where
  "digit_chars = ''0123456789''"

definition lower_chars :: "char list" where
  "lower_chars = ''abcdefghijklmnopqrstuvwxyz''"

definition upper_chars :: "char list" where
  "upper_chars = ''ABCDEFGHIJKLMNOPQRSTUVWXYZ''"

text \<open>The letters above ASCII that have a lower and an upper case below 256.\<close>

definition latin1_upper_chars :: "char list" where
  "latin1_upper_chars =
     [CHR 0xC0, CHR 0xC1, CHR 0xC2, CHR 0xC3, CHR 0xC4, CHR 0xC5, CHR 0xC6, CHR 0xC7,
      CHR 0xC8, CHR 0xC9, CHR 0xCA, CHR 0xCB, CHR 0xCC, CHR 0xCD, CHR 0xCE, CHR 0xCF,
      CHR 0xD0, CHR 0xD1, CHR 0xD2, CHR 0xD3, CHR 0xD4, CHR 0xD5, CHR 0xD6, CHR 0xD8,
      CHR 0xD9, CHR 0xDA, CHR 0xDB, CHR 0xDC, CHR 0xDD, CHR 0xDE]"

definition latin1_lower_chars :: "char list" where
  "latin1_lower_chars =
     [CHR 0xE0, CHR 0xE1, CHR 0xE2, CHR 0xE3, CHR 0xE4, CHR 0xE5, CHR 0xE6, CHR 0xE7,
      CHR 0xE8, CHR 0xE9, CHR 0xEA, CHR 0xEB, CHR 0xEC, CHR 0xED, CHR 0xEE, CHR 0xEF,
      CHR 0xF0, CHR 0xF1, CHR 0xF2, CHR 0xF3, CHR 0xF4, CHR 0xF5, CHR 0xF6, CHR 0xF8,
      CHR 0xF9, CHR 0xFA, CHR 0xFB, CHR 0xFC, CHR 0xFD, CHR 0xFE]"

text \<open>The cased characters without a case mapping below 256.\<close>

definition other_cased_chars :: "char list" where
  "other_cased_chars = [CHR 0xAA, CHR 0xB5, CHR 0xBA, CHR 0xDF, CHR 0xFF]"

definition is_digit :: "char \<Rightarrow> bool" where
  "is_digit c = (c \<in> set digit_chars)"

definition is_lower :: "char \<Rightarrow> bool" where
  "is_lower c = (c \<in> set lower_chars)"

definition is_upper :: "char \<Rightarrow> bool" where
  "is_upper c = (c \<in> set upper_chars)"

definition is_alpha :: "char \<Rightarrow> bool" where
  "is_alpha c = (is_lower c \<or> is_upper c)"

text \<open>The letters \<open>[a-zA-Z]\<close> of a regular expression are the ASCII letters \<open>is_alpha\<close>.\<close>

definition lower_char :: "char \<Rightarrow> char" where
  "lower_char c =
     (case map_of (zip (upper_chars @ latin1_upper_chars) (lower_chars @ latin1_lower_chars)) c of
        Some d \<Rightarrow> d
      | None \<Rightarrow> c)"

text \<open>The title case of one character; that of the sharp s (0xDF) is \<open>Ss\<close>.\<close>

definition title_char :: "char \<Rightarrow> string" where
  "title_char c =
     (if c = CHR 0xDF then ''Ss''
      else (case map_of (zip (lower_chars @ latin1_lower_chars)
                             (upper_chars @ latin1_upper_chars)) c of
              Some d \<Rightarrow> [d]
            | None \<Rightarrow> [c]))"

definition is_cased :: "char \<Rightarrow> bool" where
  "is_cased c =
     (c \<in> set (lower_chars @ upper_chars @ latin1_lower_chars @ latin1_upper_chars
                 @ other_cased_chars))"

text \<open>\<open>str.lower()\<close>.\<close>

definition lower :: "string \<Rightarrow> string" where
  "lower s = map lower_char s"

text \<open>\<open>str.strip()\<close>: leading and trailing whitespace removed.\<close>

definition strip :: "string \<Rightarrow> string" where
  "strip s = rev (dropWhile is_space (rev (dropWhile is_space s)))"

text \<open>\<open>re.sub(r'\s+', ' ', s)\<close>: every maximal run of whitespace becomes one space.\<close>

function collapse_ws :: "string \<Rightarrow> string" where
  "collapse_ws [] = []"
| "collapse_ws (c # cs) =
     (if is_space c then CHR '' '' # collapse_ws (dropWhile is_space cs)
      else c # collapse_ws cs)"
  by pat_completeness auto
termination
  by (relation "measure length") (auto simp: length_dropWhile_le less_Suc_eq_le)

text \<open>The substring test \<open>p in s\<close>.\<close>

fun contains :: "string \<Rightarrow> string \<Rightarrow> bool" where
  "contains [] p = (p = [])"
| "contains (c # cs) p = (prefix p (c # cs) \<or> contains cs p)"

section \<open>Cells of a data frame\<close>

text \<open>
  A cell read from a CSV file into a text column is either missing (\<open>NaN\<close>) or a
  string.  \<open>truthy\<close> is Python's truth value of a cell: \<open>NaN\<close> is a non-zero float
  and therefore true, a string is true when it is non-empty.
\<close>

datatype cell = NaN | Str string

fun isna :: "cell \<Rightarrow> bool" where
  "isna NaN = True"
| "isna (Str s) = False"

fun truthy :: "cell \<Rightarrow> bool" where
  "truthy NaN = True"
| "truthy (Str s) = (s \<noteq> [])"

text \<open>\<open>str(value)\<close>.\<close>

fun py_str :: "cell \<Rightarrow> string" where
  "py_str NaN = ''nan''"
| "py_str (Str s) = s"

section \<open>transform\_utils: clean\_string\<close>

definition legacy_null_tokens :: "string list" where
  "legacy_null_tokens = [''n/a'', ''na'', ''null'', ''none'', ''unknown'', ''tbd'', ''pending'']"

definition clean_string :: "cell \<Rightarrow> string" where
  "clean_string v =
     (if isna v then []
      else let cleaned = collapse_ws (strip (py_str v))
           in if lower cleaned \<in> set legacy_null_tokens then [] else cleaned)"

section \<open>transform\_utils: normalize\_status\<close>

text \<open>
  Python dictionaries iterate in insertion order, so \<open>STATUS_MAPPINGS\<close> and its inner
  tables are association lists in the order of the source.
\<close>

type_synonym variant_table = "(string \<times> string list) list"

definition STATUS_MAPPINGS :: "(string \<times> variant_table) list" where
  "STATUS_MAPPINGS =
   [(''patent'',
      [(''pending'', [''pending'', ''filed'', ''under examination'', ''prosecution'', ''in prosecution'']),
       (''granted'', [''granted'', ''issued'', ''patented'', ''allowed'']),
       (''abandoned'', [''abandoned'', ''withdrawn'', ''dismissed'']),
       (''rejected'', [''rejected'', ''refused'', ''denied'']),
       (''expired'', [''expired'', ''lapsed'', ''terminated''])]),
    (''trademark'',
      [(''pending'', [''pending'', ''filed'', ''under examination'', ''published'', ''application'']),
       (''registered'', [''registered'', ''registration'', ''issued'', ''granted'']),
       (''opposed'', [''opposed'', ''opposition'', ''contested'']),
       (''cancelled'', [''cancelled'', ''canceled'', ''revoked'']),
       (''abandoned'', [''abandoned'', ''withdrawn'', ''dismissed'']),
       (''expired'', [''expired'', ''lapsed'', ''terminated''])]),
    (''copyright'',
      [(''pending'', [''pending'', ''filed'', ''under examination'', ''application'']),
       (''registered'', [''registered'', ''registration'', ''issued'', ''granted'']),
       (''rejected'', [''rejected'', ''refused'', ''denied'']),
       (''abandoned'', [''abandoned'', ''withdrawn'', ''dismissed''])])]"

text \<open>\<open>STATUS_MAPPINGS.get(entity_type, {})\<close>.\<close>

definition status_mappings_get :: "string \<Rightarrow> variant_table" where
  "status_mappings_get entity_type =
     (case map_of STATUS_MAPPINGS entity_type of Some m \<Rightarrow> m | None \<Rightarrow> [])"

text \<open>The first loop: the first table entry one of whose variants equals the token.\<close>

definition exact_match :: "variant_table \<Rightarrow> string \<Rightarrow> (string \<times> string list) option" where
  "exact_match mappings status_clean =
     find (\<lambda>(normalized, variants). status_clean \<in> set (map lower variants)) mappings"

text \<open>The second loop: the first entry with a variant that contains, or is contained in, the token.\<close>

definition partial_match :: "variant_table \<Rightarrow> string \<Rightarrow> (string \<times> string list) option" where
  "partial_match mappings status_clean =
     find (\<lambda>(normalized, variants).
             list_ex (\<lambda>variant. contains status_clean (lower variant)
                               \<or> contains (lower variant) status_clean) variants)
          mappings"

definition normalize_status :: "string \<Rightarrow> string \<Rightarrow> string" where
  "normalize_status status entity_type =
     (if status = [] then ''pending''
      else let status_clean = lower (clean_string (Str status))
           in if status_clean = [] then ''pending''
              else let mappings = status_mappings_get entity_type
                   in case exact_match mappings status_clean of
                        Some (normalized, variants) \<Rightarrow> normalized
                      | None \<Rightarrow>
                          (case partial_match mappings status_clean of
                             Some (normalized, variants) \<Rightarrow> normalized
                           | None \<Rightarrow> ''pending''))"

section \<open>transform\_utils: split\_name\<close>

text \<open>
  \<open>split_where P s\<close> cuts \<open>s\<close> at every character satisfying \<open>P\<close> and keeps the
  empty pieces: with \<open>P\<close> the test for a separator it is \<open>s.split(sep)\<close>, and without
  its empty pieces and with \<open>P = is_space\<close> it is \<open>s.split()\<close>.
\<close>

fun split_where :: "(char \<Rightarrow> bool) \<Rightarrow> string \<Rightarrow> string list" where
  "split_where P [] = [[]]"
| "split_where P (c # cs) =
     (if P c then [] # split_where P cs
      else (case split_where P cs of
              [] \<Rightarrow> [[c]]
            | p # ps \<Rightarrow> (c # p) # ps))"

definition split_on :: "char \<Rightarrow> string \<Rightarrow> string list" where
  "split_on sep s = split_where (\<lambda>c. c = sep) s"

definition split_ws :: "string \<Rightarrow> string list" where
  "split_ws s = filter (\<lambda>w. w \<noteq> []) (split_where is_space s)"

text \<open>\<open>sep.join(parts)\<close>.\<close>

fun py_join :: "string \<Rightarrow> string list \<Rightarrow> string" where
  "py_join sep [] = []"
| "py_join sep [p] = p"
| "py_join sep (p # q # ps) = p @ sep @ py_join sep (q # ps)"

text \<open>
  \<open>str.title()\<close>: a cased character is upper-cased when the character before it is
  uncased (or there is none) and lower-cased otherwise.
\<close>

fun title_from :: "bool \<Rightarrow> string \<Rightarrow> string" where
  "title_from previous_is_cased [] = []"
| "title_from previous_is_cased (c # cs) =
     (if previous_is_cased then [lower_char c] else title_char c) @ title_from (is_cased c) cs"

definition str_title :: "string \<Rightarrow> string" where
  "str_title s = title_from False s"

record name_parts =
  first_name :: string
  last_name :: string

definition split_name :: "cell \<Rightarrow> name_parts" where
  "split_name name =
     (if \<not> truthy name then \<lparr>first_name = [], last_name = []\<rparr>
      else let name_clean = clean_string name
           in if name_clean = [] then \<lparr>first_name = [], last_name = []\<rparr>
              else let cparts = map strip (split_on CHR '','' name_clean)
                   in if CHR '','' \<in> set name_clean \<and> 2 \<le> length cparts
                      then \<lparr>first_name = str_title (cparts ! 1), last_name = str_title (cparts ! 0)\<rparr>
                      else let parts = split_ws name_clean
                           in if length parts = 1
                              then \<lparr>first_name = [], last_name = str_title (parts ! 0)\<rparr>
                              else if length parts = 2
                              then \<lparr>first_name = str_title (parts ! 0), last_name = str_title (parts ! 1)\<rparr>
                              else if 2 < length parts
                              then \<lparr>first_name = str_title (parts ! 0),
                                    last_name = str_title (py_join '' '' (drop 1 parts))\<rparr>
                              else \<lparr>first_name = [], last_name = str_title name_clean\<rparr>)"

text \<open>
  The specification's reading of \<open>split_name\<close>: a cleaned value that contains a comma is
  cut at its first comma, the text before it is the last name and everything after it the
  first name; otherwise the whitespace-separated tokens are distributed by their number.
\<close>

definition tokens_to_name :: "string list \<Rightarrow> name_parts" where
  "tokens_to_name tokens =
     (case tokens of
        [] \<Rightarrow> \<lparr>first_name = [], last_name = []\<rparr>
      | [t] \<Rightarrow> \<lparr>first_name = [], last_name = str_title t\<rparr>
      | [t, u] \<Rightarrow> \<lparr>first_name = str_title t, last_name = str_title u\<rparr>
      | t # rest \<Rightarrow> \<lparr>first_name = str_title t, last_name = str_title (py_join '' '' rest)\<rparr>)"

definition before_comma :: "string \<Rightarrow> string" where
  "before_comma s = takeWhile (\<lambda>c. c \<noteq> CHR '','') s"

definition after_comma :: "string \<Rightarrow> string" where
  "after_comma s = drop 1 (dropWhile (\<lambda>c. c \<noteq> CHR '','') s)"

definition split_name_spec :: "string \<Rightarrow> name_parts" where
  "split_name_spec v =
     (let name_clean = clean_string (Str v)
      in if name_clean = [] then \<lparr>first_name = [], last_name = []\<rparr>
         else if CHR '','' \<in> set name_clean
         then \<lparr>first_name = str_title (strip (after_comma name_clean)),
               last_name = str_title (strip (before_comma name_clean))\<rparr>
         else tokens_to_name (split_ws name_clean))"

text \<open>
  The amended reading: the cleaned value is cut at every comma, the first piece is the
  last name and the second piece (the text between the first and the second comma, or up
  to the end when there is no second comma) is the first name.
\<close>

definition split_name_amended :: "string \<Rightarrow> name_parts" where
  "split_name_amended v =
     (let name_clean = clean_string (Str v)
      in if name_clean = [] then \<lparr>first_name = [], last_name = []\<rparr>
         else if CHR '','' \<in> set name_clean
         then \<lparr>first_name = str_title (strip (before_comma (after_comma name_clean))),
               last_name = str_title (strip (before_comma name_clean))\<rparr>
         else tokens_to_name (split_ws name_clean))"

section \<open>transform\_utils: to\_date\<close>

text \<open>
  \<open>dateutil.parser.parse\<close> is an external library.  It enters the model as a parameter:
  a function from the text and the two flags \<open>dayfirst\<close> and \<open>yearfirst\<close> to the parsed
  calendar date, or \<open>None\<close> where the library raises \<open>ValueError\<close>, \<open>TypeError\<close> or
  \<open>OverflowError\<close> (all three are caught by \<open>to_date\<close>).
\<close>

record pdate =
  year :: nat
  month :: nat
  day :: nat

type_synonym date_parser = "string \<Rightarrow> bool \<Rightarrow> bool \<Rightarrow> pdate option"

text \<open>The invariant of a Python \<open>datetime\<close> value, as far as its fields' ranges go.\<close>

definition valid_pdate :: "pdate \<Rightarrow> bool" where
  "valid_pdate d =
     (1 \<le> year d \<and> year d \<le> 9999 \<and> 1 \<le> month d \<and> month d \<le> 12 \<and> 1 \<le> day d \<and> day d \<le> 31)"

definition digit_of :: "nat \<Rightarrow> char" where
  "digit_of n = digit_chars ! (n mod 10)"

text \<open>The decimal numeral of a natural number, \<open>str(n)\<close>.\<close>

function dec :: "nat \<Rightarrow> string" where
  "dec n = (if n < 10 then [digit_of n] else dec (n div 10) @ [digit_of n])"
  by pat_completeness auto
termination
  by (relation "measure id") auto

declare dec.simps [simp del]

definition zfill :: "nat \<Rightarrow> string \<Rightarrow> string" where
  "zfill w s = replicate (w - length s) CHR ''0'' @ s"

text \<open>\<open>date.isoformat()\<close>, that is \<open>'%04d-%02d-%02d'\<close>.\<close>

definition isoformat :: "pdate \<Rightarrow> string" where
  "isoformat d =
     zfill 4 (dec (year d)) @ ''-'' @ zfill 2 (dec (month d)) @ ''-'' @ zfill 2 (dec (day d))"

definition bad_dates :: "string list" where
  "bad_dates = [''00/00/0000'', ''1900-01-01'', ''0000-00-00'', ''01/01/1900'']"

definition to_date :: "date_parser \<Rightarrow> cell \<Rightarrow> string option" where
  "to_date parse v =
     (if isna v \<or> \<not> truthy v then None
      else let date_str = clean_string v
           in if date_str = [] then None
              else if date_str \<in> set bad_dates then None
              else (case parse date_str False False of
                      None \<Rightarrow> None
                    | Some parsed_date \<Rightarrow>
                        if 1900 \<le> year parsed_date \<and> year parsed_date \<le> 2050
                        then Some (isoformat parsed_date)
                        else None))"

text \<open>The value of a digit and of a decimal numeral, \<open>int(s)\<close> on a string of digits.\<close>

definition digit_val :: "char \<Rightarrow> nat" where
  "digit_val c =
     (case map_of (zip digit_chars [0, 1, 2, 3, 4, 5, 6, 7, 8, 9]) c of
        Some n \<Rightarrow> n
      | None \<Rightarrow> 0)"

definition int_of_digits :: "string \<Rightarrow> nat" where
  "int_of_digits s = foldl (\<lambda>a c. 10 * a + digit_val c) 0 s"

text \<open>
  An ISO-8601 calendar date in the extended format: four digits, a hyphen, two digits of
  a month from 01 to 12, a hyphen, two digits of a day from 01 to 31.
\<close>

definition is_iso_date :: "string \<Rightarrow> bool" where
  "is_iso_date s =
     (length s = 10
      \<and> list_all is_digit (take 4 s) \<and> s ! 4 = CHR ''-''
      \<and> list_all is_digit (take 2 (drop 5 s)) \<and> s ! 7 = CHR ''-''
      \<and> list_all is_digit (drop 8 s)
      \<and> 1 \<le> int_of_digits (take 2 (drop 5 s)) \<and> int_of_digits (take 2 (drop 5 s)) \<le> 12
      \<and> 1 \<le> int_of_digits (drop 8 s) \<and> int_of_digits (drop 8 s) \<le> 31)"

fun iso_date_or_null :: "string option \<Rightarrow> bool" where
  "iso_date_or_null None = True"
| "iso_date_or_null (Some s) = is_iso_date s"

text \<open>
  A reference parser for the two fully numeric layouts \<open>NN/NN/NNNN\<close> and
  \<open>NNNN-NN-NN\<close>, in the reading that dateutil gives them: with \<open>dayfirst\<close> unset the
  first field of the slashed layout is the month, unless it exceeds 12.  It instantiates
  the parser parameter in the examples.
\<close>

definition digits_of_length :: "nat \<Rightarrow> string \<Rightarrow> bool" where
  "digits_of_length n s = (length s = n \<and> list_all is_digit s)"

definition make_pdate :: "nat \<Rightarrow> nat \<Rightarrow> nat \<Rightarrow> pdate option" where
  "make_pdate y m d =
     (if 1 \<le> y \<and> y \<le> 9999 \<and> 1 \<le> m \<and> m \<le> 12 \<and> 1 \<le> d \<and> d \<le> 31
      then Some \<lparr>year = y, month = m, day = d\<rparr> else None)"

definition numeric_date_parser :: date_parser where
  "numeric_date_parser s dayfirst yearfirst =
     (case split_on CHR ''/'' s of
        [a, b, y] \<Rightarrow>
          if digits_of_length 2 a \<and> digits_of_length 2 b \<and> digits_of_length 4 y
          then if 12 < int_of_digits a \<or> (dayfirst \<and> int_of_digits b \<le> 12)
               then make_pdate (int_of_digits y) (int_of_digits b) (int_of_digits a)
               else make_pdate (int_of_digits y) (int_of_digits a) (int_of_digits b)
          else None
      | _ \<Rightarrow>
          (case split_on CHR ''-'' s of
             [y, m, d] \<Rightarrow>
               if digits_of_length 4 y \<and> digits_of_length 2 m \<and> digits_of_length 2 d
               then make_pdate (int_of_digits y) (int_of_digits m) (int_of_digits d)
               else None
           | _ \<Rightarrow> None))"

section \<open>transform\_utils: iso2\<close>

definition COUNTRY_MAP :: "(string \<times> string) list" where
  "COUNTRY_MAP =
   [(''United States'', ''US''), (''USA'', ''US''), (''US'', ''US''),
    (''United States of America'', ''US''),
    (''Canada'', ''CA''), (''CA'', ''CA''),
    (''United Kingdom'', ''GB''), (''UK'', ''GB''), (''GB'', ''GB''), (''Great Britain'', ''GB''),
    (''Germany'', ''DE''), (''DE'', ''DE''), (''Deutschland'', ''DE''),
    (''Federal Republic of Germany'', ''DE''),
    (''France'', ''FR''), (''FR'', ''FR''),
    (''R'' @ [CHR 0xE9] @ ''publique fran'' @ [CHR 0xE7] @ ''aise'', ''FR''),
    (''Japan'', ''JP''), (''JP'', ''JP''), (''Nippon'', ''JP''), (''Nihon'', ''JP''),
    (''China'', ''CN''), (''CN'', ''CN''), (''People'' @ [CHR 0x27] @ ''s Republic of China'', ''CN''),
    (''PRC'', ''CN''),
    (''India'', ''IN''), (''IN'', ''IN''), (''Republic of India'', ''IN''),
    (''Australia'', ''AU''), (''AU'', ''AU''), (''Commonwealth of Australia'', ''AU''),
    (''Brazil'', ''BR''), (''BR'', ''BR''), (''Brasil'', ''BR''),
    (''Federative Republic of Brazil'', ''BR''),
    (''Italy'', ''IT''), (''IT'', ''IT''), (''Italia'', ''IT''),
    (''Spain'', ''ES''), (''ES'', ''ES''), (''Espa'' @ [CHR 0xF1] @ ''a'', ''ES''),
    (''Netherlands'', ''NL''), (''NL'', ''NL''), (''Holland'', ''NL''),
    (''Switzerland'', ''CH''), (''CH'', ''CH''), (''Schweiz'', ''CH''), (''Suisse'', ''CH''),
    (''Sweden'', ''SE''), (''SE'', ''SE''), (''Sverige'', ''SE''),
    (''South Korea'', ''KR''), (''KR'', ''KR''), (''Korea'', ''KR''),
    (''Republic of Korea'', ''KR'')]"

definition iso2 :: "cell \<Rightarrow> string option" where
  "iso2 country_raw =
     (if \<not> truthy country_raw then None
      else let country_clean = strip (clean_string country_raw)
           in if country_clean = [] then None
              else (case map_of COUNTRY_MAP country_clean of
                      Some result \<Rightarrow> Some result
                    | None \<Rightarrow>
                       (case find (\<lambda>(key, value). lower key = lower country_clean) COUNTRY_MAP of
                          Some (key, value) \<Rightarrow> Some value
                        | None \<Rightarrow>
                            let country_lower = lower country_clean
                            in if contains country_lower ''united states''
                                  \<or> contains country_lower ''america'' then Some ''US''
                               else if contains country_lower ''united kingdom''
                                  \<or> contains country_lower ''britain'' then Some ''GB''
                               else if contains country_lower ''germany''
                                  \<or> contains country_lower ''deutschland'' then Some ''DE''
                               else None)))"

text \<open>An ISO-3166 alpha-2 code has the form of two upper-case letters.\<close>

definition is_alpha2 :: "string \<Rightarrow> bool" where
  "is_alpha2 s = (length s = 2 \<and> list_all is_upper s)"

fun alpha2_or_null :: "string option \<Rightarrow> bool" where
  "alpha2_or_null None = True"
| "alpha2_or_null (Some s) = is_alpha2 s"

section \<open>Exceptions\<close>

text \<open>
  The exceptions that the modelled code can raise, each with its message.  A function that
  can raise returns a sum, \<open>Inl\<close> the exception; \<open>collect\<close> runs through the results
  of a loop and stops at the first exception.
\<close>

datatype py_error =
  KeyError string | AttributeError string | ValueError string | OtherError string

fun collect :: "('e + 'a) list \<Rightarrow> 'e + 'a list" where
  "collect [] = Inr []"
| "collect (x # xs) =
     (case x of
        Inl e \<Rightarrow> Inl e
      | Inr v \<Rightarrow> (case collect xs of Inl e \<Rightarrow> Inl e | Inr vs \<Rightarrow> Inr (v # vs)))"

section \<open>transform\_utils: parse\_classes\<close>

text \<open>
  \<open>re.split(r'[,;\s]+', s)\<close>: the pieces between maximal runs of separators, with an
  empty piece where the string starts or ends with a separator.
\<close>

function re_split_runs :: "(char \<Rightarrow> bool) \<Rightarrow> string \<Rightarrow> string list" where
  "re_split_runs P [] = [[]]"
| "re_split_runs P (c # cs) =
     (if P c then [] # re_split_runs P (dropWhile P cs)
      else (case re_split_runs P cs of
              [] \<Rightarrow> [[c]]
            | p # ps \<Rightarrow> (c # p) # ps))"
  by pat_completeness auto
termination
  by (relation "measure (\<lambda>(P, s). length s)") (auto simp: length_dropWhile_le less_Suc_eq_le)

definition is_class_separator :: "char \<Rightarrow> bool" where
  "is_class_separator c = (c = CHR '','' \<or> c = CHR '';'' \<or> is_space c)"

text \<open>
  \<open>str.isdigit()\<close> also holds of the superscript digits 0xB2, 0xB3 and 0xB9, which are
  not decimal digits: \<open>\d\<close> does not match them and \<open>int\<close> raises \<open>ValueError\<close> on
  them.  \<open>py_int\<close> is \<open>int(s)\<close> for a string of which \<open>isdigit\<close> holds.
\<close>

definition superscript_digits :: "char list" where
  "superscript_digits = [CHR 0xB2, CHR 0xB3, CHR 0xB9]"

definition isdigit :: "string \<Rightarrow> bool" where
  "isdigit s = (s \<noteq> [] \<and> list_all (\<lambda>c. is_digit c \<or> c \<in> set superscript_digits) s)"

definition py_int :: "string \<Rightarrow> py_error + nat" where
  "py_int s =
     (if list_all is_digit s then Inr (int_of_digits s)
      else Inl (ValueError (''invalid literal for int() with base 10: ''
                            @ [CHR 0x27] @ s @ [CHR 0x27])))"

text \<open>\<open>re.findall(r'\d+', part)\<close>.\<close>

definition findall_digits :: "string \<Rightarrow> string list" where
  "findall_digits s = filter (\<lambda>w. w \<noteq> []) (split_where (\<lambda>c. \<not> is_digit c) s)"

definition valid_nice_class :: "nat \<Rightarrow> bool" where
  "valid_nice_class num = (1 \<le> num \<and> num \<le> 45)"

text \<open>The body of the loop over the parts: the numbers that one part appends.\<close>

definition part_numbers :: "string \<Rightarrow> py_error + nat list" where
  "part_numbers part0 =
     (let part = strip part0
      in if isdigit part
         then (case py_int part of
                 Inl e \<Rightarrow> Inl e
               | Inr num \<Rightarrow> Inr (filter valid_nice_class [num]))
         else Inr (filter valid_nice_class (map int_of_digits (findall_digits part))))"

definition parse_classes :: "cell \<Rightarrow> py_error + nat list" where
  "parse_classes v =
     (if isna v \<or> \<not> truthy v then Inr []
      else let classes_str = clean_string v
           in if classes_str = [] then Inr []
              else let parts = re_split_runs is_class_separator classes_str
                   in case collect (map part_numbers parts) of
                        Inl e \<Rightarrow> Inl e
                      | Inr numbers \<Rightarrow> Inr (sort (remdups (concat numbers))))"

section \<open>Data frames\<close>

text \<open>
  A pandas \<open>DataFrame\<close>: the column names and the rows, each row giving the value of every
  column.  A \<open>cell frame\<close> is a legacy extract as \<open>pd.read_csv\<close> returns it for text columns.
\<close>

record 'v frame =
  cols :: "string list"
  recs :: "(string \<Rightarrow> 'v) list"

definition column :: "'v frame \<Rightarrow> string \<Rightarrow> 'v list" where
  "column df c = map (\<lambda>r. r c) (recs df)"

text \<open>
  The \<open>.str\<close> accessor of a column needs a column of strings.  \<open>pd.read_csv\<close> gives a
  column that has rows and no string in them the dtype \<open>float64\<close>, and \<open>.str\<close> raises
  \<open>AttributeError\<close> on it; the column of a frame without rows has the dtype \<open>object\<close>.
\<close>

fun is_str :: "cell \<Rightarrow> bool" where
  "is_str NaN = False"
| "is_str (Str s) = True"

definition str_dtype :: "cell frame \<Rightarrow> string \<Rightarrow> bool" where
  "str_dtype df c = (recs df = [] \<or> list_ex is_str (column df c))"

definition str_accessor_error :: py_error where
  "str_accessor_error = AttributeError ''Can only use .str accessor with string values!''"

text \<open>\<open>df.get(c, "")\<close>, row by row: the column, or the empty string where there is no such column.\<close>

definition df_get :: "cell frame \<Rightarrow> string \<Rightarrow> (string \<Rightarrow> cell) \<Rightarrow> cell" where
  "df_get df c r = (if c \<in> set (cols df) then r c else Str [])"

text \<open>\<open>Series.fillna(x)\<close> on one cell.\<close>

fun fillna :: "string \<Rightarrow> cell \<Rightarrow> cell" where
  "fillna x NaN = Str x"
| "fillna x (Str s) = Str s"

text \<open>\<open>drop_duplicates(subset=[key])\<close> with the default \<open>keep='first'\<close>.\<close>

fun keep_first :: "('a \<Rightarrow> 'k) \<Rightarrow> 'k list \<Rightarrow> 'a list \<Rightarrow> 'a list" where
  "keep_first key seen [] = []"
| "keep_first key seen (x # xs) =
     (if key x \<in> set seen then keep_first key seen xs
      else x # keep_first key (key x # seen) xs)"

definition drop_duplicates :: "('a \<Rightarrow> 'k) \<Rightarrow> 'a list \<Rightarrow> 'a list" where
  "drop_duplicates key xs = keep_first key [] xs"

section \<open>migrate: the transforms\<close>

record keyed =
  external_ref :: string

record client_row = keyed +
  name :: name_parts
  email :: cell
  phone :: cell
  address :: cell
  country_code :: "string option"
  created_on :: "string option"

record ip_asset = keyed +
  client_id :: "nat option"
  filing_date :: "string option"
  status :: cell

record patent_row = ip_asset +
  title :: cell
  grant_date :: "string option"
  jurisdiction :: "string option"

record trademark_row = ip_asset +
  mark_text :: cell
  nice_classes :: "nat list"

record deadline_row = keyed +
  related_table :: string
  related_id :: "nat option"
  due_date :: "string option"
  description :: cell

text \<open>\<open>df[c].astype(str).str.strip()\<close> on one row.\<close>

definition str_strip :: "cell \<Rightarrow> string" where
  "str_strip v = strip (py_str v)"

definition client_of :: "date_parser \<Rightarrow> cell frame \<Rightarrow> (string \<Rightarrow> cell) \<Rightarrow> client_row" where
  "client_of parse df r =
     \<lparr>external_ref = str_strip (r ''client_id''),
      name = split_name (r ''client_name''),
      email = df_get df ''email'' r,
      phone = df_get df ''phone'' r,
      address = df_get df ''address'' r,
      country_code = iso2 (r ''country''),
      created_on = to_date parse (r ''created_on'')\<rparr>"

text \<open>
  \<open>df[c]\<close> raises \<open>KeyError\<close> for a missing column; \<open>df.get(c, "").map(f)\<close> raises
  \<open>AttributeError\<close> for one, the default being a \<open>str\<close>, which has no \<open>map\<close>.  The
  checks follow the order of the statements.
\<close>

definition transform_clients :: "date_parser \<Rightarrow> cell frame \<Rightarrow> py_error + client_row list" where
  "transform_clients parse df =
     (if ''client_id'' \<notin> set (cols df) then Inl (KeyError ''client_id'')
      else if ''client_name'' \<notin> set (cols df) then Inl (KeyError ''client_name'')
      else if ''country'' \<notin> set (cols df) then Inl (AttributeError ''map'')
      else if ''created_on'' \<notin> set (cols df) then Inl (AttributeError ''map'')
      else Inr (drop_duplicates external_ref (map (client_of parse df) (recs df))))"

text \<open>
  \<open>MAP["jurisdiction_map"]\<close> is read from \<open>schema/mappings.json\<close>, which is configuration
  and enters as the parameter \<open>jurisdiction_map\<close>.
\<close>

definition patent_of ::
  "date_parser \<Rightarrow> (string \<rightharpoonup> string) \<Rightarrow> cell frame \<Rightarrow> (string \<rightharpoonup> nat) \<Rightarrow> (string \<Rightarrow> cell) \<Rightarrow> patent_row"
where
  "patent_of parse jurisdiction_map df client_map r =
     \<lparr>external_ref = str_strip (r ''patent_id''),
      client_id = client_map (str_strip (r ''client_id'')),
      filing_date = to_date parse (r ''filing_date''),
      status = df_get df ''status'' r,
      title = fillna ''Untitled'' (r ''title''),
      grant_date = to_date parse (r ''grant_date''),
      jurisdiction = jurisdiction_map (py_str (r ''jurisdiction''))\<rparr>"

definition transform_patents ::
  "date_parser \<Rightarrow> (string \<rightharpoonup> string) \<Rightarrow> cell frame \<Rightarrow> (string \<rightharpoonup> nat) \<Rightarrow> py_error + patent_row list"
where
  "transform_patents parse jurisdiction_map df client_map =
     (if ''patent_id'' \<notin> set (cols df) then Inl (KeyError ''patent_id'')
      else if ''client_id'' \<notin> set (cols df) then Inl (KeyError ''client_id'')
      else if ''title'' \<notin> set (cols df) then Inl (KeyError ''title'')
      else if ''filing_date'' \<notin> set (cols df) then Inl (AttributeError ''map'')
      else if ''grant_date'' \<notin> set (cols df) then Inl (AttributeError ''map'')
      else if ''jurisdiction'' \<notin> set (cols df) then Inl (AttributeError ''map'')
      else Inr (map (patent_of parse jurisdiction_map df client_map) (recs df)))"

text \<open>
  \<open>parse_classes\<close> is mapped over the \<open>class\<close> column; an exception it raises on a
  cell leaves the transform.  A trademark row is built from the legacy row and its classes.
\<close>

definition trademark_of ::
  "date_parser \<Rightarrow> cell frame \<Rightarrow> (string \<rightharpoonup> nat) \<Rightarrow> (string \<Rightarrow> cell) \<Rightarrow> nat list
     \<Rightarrow> trademark_row"
where
  "trademark_of parse df client_map r classes =
     \<lparr>external_ref = str_strip (r ''tm_id''),
      client_id = client_map (str_strip (r ''client_id'')),
      filing_date = to_date parse (r ''filing_date''),
      status = df_get df ''status'' r,
      mark_text = fillna [] (r ''mark_text''),
      nice_classes = classes\<rparr>"

definition transform_trademarks ::
  "date_parser \<Rightarrow> cell frame \<Rightarrow> (string \<rightharpoonup> nat) \<Rightarrow> py_error + trademark_row list"
where
  "transform_trademarks parse df client_map =
     (if ''tm_id'' \<notin> set (cols df) then Inl (KeyError ''tm_id'')
      else if ''client_id'' \<notin> set (cols df) then Inl (KeyError ''client_id'')
      else if ''mark_text'' \<notin> set (cols df) then Inl (KeyError ''mark_text'')
      else if ''class'' \<notin> set (cols df) then Inl (AttributeError ''map'')
      else (case collect (map (\<lambda>r. parse_classes (r ''class'')) (recs df)) of
              Inl e \<Rightarrow> Inl e
            | Inr classes \<Rightarrow>
                if ''filing_date'' \<notin> set (cols df) then Inl (AttributeError ''map'')
                else Inr (map (\<lambda>(r, c). trademark_of parse df client_map r c)
                              (zip (recs df) classes))))"

text \<open>\<open>Series.str.lower()\<close> on one cell: a missing value stays missing.\<close>

fun str_lower :: "cell \<Rightarrow> cell" where
  "str_lower NaN = NaN"
| "str_lower (Str s) = Str (lower s)"

text \<open>
  \<open>resolve_id\<close> is applied to the rows of the legacy frame \<open>df\<close>, so it reads
  \<open>related_table\<close> from the legacy row, while the output column \<open>related_table\<close> is
  computed from \<open>related_type\<close>.
\<close>

definition resolve_id :: "(string \<rightharpoonup> nat) \<Rightarrow> (string \<rightharpoonup> nat) \<Rightarrow> (string \<Rightarrow> cell) \<Rightarrow> nat option" where
  "resolve_id patent_map tm_map row =
     (let rid = str_strip (row ''related_id'')
      in if row ''related_table'' = Str ''patents'' then patent_map rid else tm_map rid)"

definition deadline_of ::
  "date_parser \<Rightarrow> cell frame \<Rightarrow> (string \<rightharpoonup> nat) \<Rightarrow> (string \<rightharpoonup> nat) \<Rightarrow> (string \<Rightarrow> cell) \<Rightarrow> deadline_row"
where
  "deadline_of parse df patent_map tm_map r =
     \<lparr>external_ref = str_strip (r ''dl_id''),
      related_table =
        (if str_lower (r ''related_type'') = Str ''patent'' then ''patents'' else ''trademarks''),
      related_id = resolve_id patent_map tm_map r,
      due_date = to_date parse (r ''due_date''),
      description = df_get df ''description'' r\<rparr>"

text \<open>
  \<open>df["related_type"].str.lower()\<close> needs a column of strings.  On a frame without rows
  \<open>df.apply(resolve_id, axis=1)\<close> returns a frame, not a column, and assigning it to
  \<open>out["related_id"]\<close> raises \<open>ValueError\<close>; on a frame with rows \<open>resolve_id\<close> reads
  \<open>related_id\<close> and \<open>related_table\<close> from every row.
\<close>

definition transform_deadlines ::
  "date_parser \<Rightarrow> cell frame \<Rightarrow> (string \<rightharpoonup> nat) \<Rightarrow> (string \<rightharpoonup> nat) \<Rightarrow> py_error + deadline_row list"
where
  "transform_deadlines parse df patent_map tm_map =
     (if ''dl_id'' \<notin> set (cols df) then Inl (KeyError ''dl_id'')
      else if ''related_type'' \<notin> set (cols df) then Inl (KeyError ''related_type'')
      else if \<not> str_dtype df ''related_type'' then Inl str_accessor_error
      else if recs df = []
      then Inl (ValueError ''Cannot set a DataFrame with multiple columns to the single column related_id'')
      else if ''related_id'' \<notin> set (cols df) then Inl (KeyError ''related_id'')
      else if ''related_table'' \<notin> set (cols df) then Inl (KeyError ''related_table'')
      else if ''due_date'' \<notin> set (cols df) then Inl (AttributeError ''map'')
      else Inr (map (deadline_of parse df patent_map tm_map) (recs df)))"

text \<open>The canonical status values of an entity type: the keys of its table.\<close>

definition canonical_statuses :: "string \<Rightarrow> string list" where
  "canonical_statuses entity_type = map fst (status_mappings_get entity_type)"

section \<open>migrate: upsert\_dataframe\<close>

text \<open>
  A table of the target store is the list of its rows; a stored row gives each column a
  value or SQL \<open>NULL\<close> (\<open>None\<close>).  The statement
  \<open>INSERT INTO t (collist) VALUES (...) ON CONFLICT (unique_col) DO UPDATE SET c = EXCLUDED.c\<close>
  is executed once per record of the frame, in order: the proposed row has the record's
  values in the frame's columns; if a stored row has the same non-null value in
  \<open>unique_col\<close>, its \<open>update_cols\<close> are overwritten from the proposed row, otherwise the
  proposed row is appended.
\<close>

type_synonym 'v stored_row = "string \<rightharpoonup> 'v"

definition proposed :: "string list \<Rightarrow> (string \<Rightarrow> 'v) \<Rightarrow> 'v stored_row" where
  "proposed collist r = (\<lambda>c. if c \<in> set collist then Some (r c) else None)"

definition do_update :: "string list \<Rightarrow> 'v stored_row \<Rightarrow> 'v stored_row \<Rightarrow> 'v stored_row" where
  "do_update update_cols excluded t = (\<lambda>c. if c \<in> set update_cols then excluded c else t c)"

fun insert_on_conflict ::
  "string \<Rightarrow> string list \<Rightarrow> 'v stored_row \<Rightarrow> 'v stored_row list \<Rightarrow> 'v stored_row list"
where
  "insert_on_conflict unique_col update_cols p [] = [p]"
| "insert_on_conflict unique_col update_cols p (t # ts) =
     (if p unique_col \<noteq> None \<and> t unique_col = p unique_col
      then do_update update_cols p t # ts
      else t # insert_on_conflict unique_col update_cols p ts)"

definition execute_many ::
  "string \<Rightarrow> string list \<Rightarrow> string list \<Rightarrow> (string \<Rightarrow> 'v) list \<Rightarrow> 'v stored_row list \<Rightarrow> 'v stored_row list"
where
  "execute_many unique_col update_cols collist records table =
     foldl (\<lambda>tb r. insert_on_conflict unique_col update_cols (proposed collist r) tb) table records"

definition df_empty :: "'v frame \<Rightarrow> bool" where
  "df_empty df = (recs df = [] \<or> cols df = [])"

text \<open>The connection is the state of the store, its tables by name; it is returned updated.\<close>

definition upsert_dataframe ::
  "(string \<Rightarrow> 'v stored_row list) \<Rightarrow> 'v frame \<Rightarrow> string \<Rightarrow> string \<Rightarrow> string list
     \<Rightarrow> (string \<Rightarrow> 'v stored_row list) \<times> (nat \<times> nat)"
where
  "upsert_dataframe conn df table unique_col update_cols =
     (if df_empty df then (conn, (0, 0))
      else (conn(table := execute_many unique_col update_cols (cols df) (recs df) (conn table)),
            (length (recs df), 0)))"

text \<open>The values of the unique column down a table.\<close>

definition keys_of :: "string \<Rightarrow> 'v stored_row list \<Rightarrow> 'v option list" where
  "keys_of unique_col table = map (\<lambda>t. t unique_col) table"

section \<open>transform\_utils: parse\_email\<close>

definition email_local_char :: "char \<Rightarrow> bool" where
  "email_local_char c = (is_alpha c \<or> is_digit c \<or> c \<in> set ''._%+-'')"

definition email_domain_char :: "char \<Rightarrow> bool" where
  "email_domain_char c = (is_alpha c \<or> is_digit c \<or> c \<in> set ''.-'')"

text \<open>
  The pattern \<open>^[a-zA-Z0-9._%+-]+@[a-zA-Z0-9.-]+\.[a-zA-Z]{2,}$\<close>.  No class of the
  pattern contains \<open>@\<close>, so the local part ends at the first \<open>@\<close>; the last group
  contains no dot, so it starts after the last dot.  \<open>$\<close> also matches before a final
  newline.
\<close>

definition email_shape :: "string \<Rightarrow> bool" where
  "email_shape s =
     (let local_part = takeWhile (\<lambda>c. c \<noteq> CHR ''@'') s;
          rest = drop 1 (dropWhile (\<lambda>c. c \<noteq> CHR ''@'') s);
          tld = rev (takeWhile (\<lambda>c. c \<noteq> CHR ''.'') (rev rest));
          domain = rev (drop 1 (dropWhile (\<lambda>c. c \<noteq> CHR ''.'') (rev rest)))
      in CHR ''@'' \<in> set s \<and> local_part \<noteq> [] \<and> list_all email_local_char local_part
         \<and> CHR ''.'' \<in> set rest \<and> domain \<noteq> [] \<and> list_all email_domain_char domain
         \<and> 2 \<le> length tld \<and> list_all is_alpha tld)"

definition match_email :: "string \<Rightarrow> bool" where
  "match_email s =
     (email_shape s \<or> (s \<noteq> [] \<and> last s = CHR 0x0A \<and> email_shape (butlast s)))"

text \<open>\<open>s.replace('_at_', '@')\<close>.\<close>

function replace_at :: "string \<Rightarrow> string" where
  "replace_at [] = []"
| "replace_at (c # cs) =
     (if prefix ''_at_'' (c # cs) then CHR ''@'' # replace_at (drop 3 cs)
      else c # replace_at cs)"
  by pat_completeness auto
termination
  by (relation "measure length") (auto simp: less_Suc_eq_le)

definition parse_email :: "cell \<Rightarrow> string" where
  "parse_email email_raw =
     (if \<not> truthy email_raw then []
      else let email_clean = lower (clean_string email_raw)
           in if email_clean = [] then []
              else if match_email email_clean then email_clean
              else if contains email_clean ''_at_''
              then (let fixed = replace_at email_clean
                    in if match_email fixed then fixed else [])
              else [])"

section \<open>transform\_utils: validate\_data\_quality\<close>

text \<open>
  Python computes the score in binary floating point.  The two roundings involved enter
  as parameters: \<open>fl\<close>, the rounding of an exact result to the nearest float, applied
  by every arithmetic operation, and \<open>round2\<close>, the built-in \<open>round(x, 2)\<close>.
  \<open>float_laws\<close> are the properties of the two that the development uses:
  both are monotone and exact at the integers 0, 1 and 100.
\<close>

record arith =
  fl :: "rat \<Rightarrow> rat"
  round2 :: "rat \<Rightarrow> rat"

definition float_laws :: "arith \<Rightarrow> bool" where
  "float_laws ar =
     ((\<forall>x y. x \<le> y \<longrightarrow> fl ar x \<le> fl ar y)
      \<and> (\<forall>x y. x \<le> y \<longrightarrow> round2 ar x \<le> round2 ar y)
      \<and> fl ar 0 = 0 \<and> fl ar 1 = 1 \<and> fl ar 100 = 100 \<and> round2 ar 0 = 0)"

text \<open>Exact arithmetic, with rounding to two decimals half to even.\<close>

definition round_half_even :: "rat \<Rightarrow> int" where
  "round_half_even x =
     (let f = \<lfloor>x\<rfloor>; r = x - of_int f
      in if r < 1 / 2 then f
         else if 1 / 2 < r then f + 1
         else if even f then f else f + 1)"

definition exact_round2 :: "rat \<Rightarrow> rat" where
  "exact_round2 x = of_int (round_half_even (x * 100)) / 100"

definition exact_arith :: arith where
  "exact_arith = \<lparr>fl = (\<lambda>x. x), round2 = exact_round2\<rparr>"

record quality_metrics =
  total_rows :: nat
  complete_records :: nat
  missing_critical_fields :: nat
  invalid_dates :: nat
  invalid_emails :: nat
  duplicate_records :: nat
  quality_score :: rat
  issues :: "string list"

text \<open>\<open>Series.duplicated().sum()\<close>: the rows whose value occurred in an earlier row.\<close>

definition duplicated_count :: "'a list \<Rightarrow> nat" where
  "duplicated_count xs = length xs - length (remdups xs)"

text \<open>\<open>df[field].isna().sum() + (df[field] == "").sum()\<close>.\<close>

definition count_missing :: "cell frame \<Rightarrow> string \<Rightarrow> nat" where
  "count_missing df field =
     length (filter isna (column df field)) + length (filter (\<lambda>v. v = Str []) (column df field))"

text \<open>The loop over the critical fields: the total, and the issue lines.\<close>

definition present_fields :: "cell frame \<Rightarrow> string list \<Rightarrow> string list" where
  "present_fields df field_list = filter (\<lambda>field. field \<in> set (cols df)) field_list"

definition missing_fields :: "cell frame \<Rightarrow> string list \<Rightarrow> nat" where
  "missing_fields df field_list = sum_list (map (count_missing df) (present_fields df field_list))"

definition missing_issues :: "cell frame \<Rightarrow> string list \<Rightarrow> string list" where
  "missing_issues df field_list =
     concat (map (\<lambda>field. if 0 < count_missing df field
                           then [dec (count_missing df field) @ '' records missing '' @ field]
                           else [])
                 (present_fields df field_list))"

text \<open>\<open>df[field].apply(lambda x: to_date(x) is None if x else False).sum()\<close>.\<close>

definition count_invalid_dates :: "date_parser \<Rightarrow> cell frame \<Rightarrow> string \<Rightarrow> nat" where
  "count_invalid_dates parse df field =
     length (filter (\<lambda>x. truthy x \<and> to_date parse x = None) (column df field))"

definition invalid_date_fields :: "date_parser \<Rightarrow> cell frame \<Rightarrow> string list \<Rightarrow> nat" where
  "invalid_date_fields parse df field_list =
     sum_list (map (count_invalid_dates parse df) (present_fields df field_list))"

definition date_issues :: "date_parser \<Rightarrow> cell frame \<Rightarrow> string list \<Rightarrow> string list" where
  "date_issues parse df field_list =
     concat (map (\<lambda>field. if 0 < count_invalid_dates parse df field
                           then [dec (count_invalid_dates parse df field) @ '' invalid '' @ field
                                 @ '' values'']
                           else [])
                 (present_fields df field_list))"

text \<open>
  \<open>total_rows - df['email'].apply(lambda x: bool(parse_email(x)) if x else False).sum()\<close>,
  where there is an \<open>email\<close> column.
\<close>

definition count_invalid_emails :: "cell frame \<Rightarrow> nat" where
  "count_invalid_emails df =
     (if ''email'' \<in> set (cols df)
      then length (recs df)
           - length (filter (\<lambda>x. truthy x \<and> parse_email x \<noteq> []) (column df ''email''))
      else 0)"

definition count_duplicates :: "cell frame \<Rightarrow> nat" where
  "count_duplicates df =
     (if ''external_ref'' \<in> set (cols df) then duplicated_count (column df ''external_ref'')
      else 0)"

text \<open>\<open>max(0, 100 - (total_issues / total_rows * 100))\<close>, operation by operation.\<close>

definition score_of :: "arith \<Rightarrow> nat \<Rightarrow> nat \<Rightarrow> rat" where
  "score_of ar total_issues rows =
     max 0 (fl ar (100 - fl ar (fl ar (of_nat total_issues / of_nat rows) * 100)))"

text \<open>
  The result for a frame without rows has the keys \<open>total_rows\<close>, \<open>quality_score\<close> and
  \<open>issues\<close> only; its other fields are 0 here.
\<close>

definition validate_data_quality ::
  "arith \<Rightarrow> date_parser \<Rightarrow> cell frame \<Rightarrow> string \<Rightarrow> quality_metrics"
where
  "validate_data_quality ar parse df entity_type =
     (if length (recs df) = 0
      then \<lparr>total_rows = 0, complete_records = 0, missing_critical_fields = 0,
            invalid_dates = 0, invalid_emails = 0, duplicate_records = 0,
            quality_score = 0, issues = []\<rparr>
      else let duplicates = count_duplicates df;
               issues0 = (if 0 < duplicates
                          then [dec duplicates @ '' duplicate external references found'']
                          else []);
               (missing, bad_dates_n, bad_emails, issues1) =
                 (if entity_type = ''clients''
                  then (missing_fields df [''client_name'', ''email''], 0,
                        count_invalid_emails df,
                        missing_issues df [''client_name'', ''email'']
                        @ (if 0 < count_invalid_emails df
                           then [dec (count_invalid_emails df) @ '' invalid email addresses'']
                           else []))
                  else if entity_type \<in> set [''patents'', ''trademarks'', ''copyrights'']
                  then (missing_fields df [''title'', ''client_id'', ''status''],
                        invalid_date_fields parse df
                          [''filing_date'', ''grant_date'', ''registration_date''],
                        0,
                        missing_issues df [''title'', ''client_id'', ''status'']
                        @ date_issues parse df
                            [''filing_date'', ''grant_date'', ''registration_date''])
                  else (0, 0, 0, []));
               total_issues = missing + bad_dates_n + bad_emails + duplicates
           in \<lparr>total_rows = length (recs df), complete_records = 0,
               missing_critical_fields = missing, invalid_dates = bad_dates_n,
               invalid_emails = bad_emails, duplicate_records = duplicates,
               quality_score = round2 ar (score_of ar total_issues (length (recs df))),
               issues = issues0 @ issues1\<rparr>)"

text \<open>The critical fields that \<open>validate_data_quality\<close> checks for an entity type.\<close>

definition critical_fields :: "string \<Rightarrow> string list" where
  "critical_fields entity_type =
     (if entity_type = ''clients'' then [''client_name'', ''email'']
      else if entity_type \<in> set [''patents'', ''trademarks'', ''copyrights'']
      then [''title'', ''client_id'', ''status'']
      else [])"

text \<open>
  The rows that \<open>validate_data_quality\<close> counts as missing a critical field: in one of
  the entity type's critical fields that is a column of the frame, the row's cell is
  missing or the empty string.
\<close>

definition missing_critical :: "cell frame \<Rightarrow> string \<Rightarrow> (string \<Rightarrow> cell) \<Rightarrow> bool" where
  "missing_critical df entity_type r =
     list_ex (\<lambda>field. field \<in> set (cols df) \<and> (isna (r field) \<or> r field = Str []))
             (critical_fields entity_type)"

definition add_row :: "'v frame \<Rightarrow> (string \<Rightarrow> 'v) \<Rightarrow> 'v frame" where
  "add_row df r = df\<lparr>recs := recs df @ [r]\<rparr>"

text \<open>
  The date fields that \<open>validate_data_quality\<close> checks for an entity type, and the counts
  of a dataset that the score is about: the cells missing (\<open>NaN\<close> or empty) in its
  critical fields, the non-empty cells that are no date in its date fields, for clients
  the rows without a valid email, and the rows whose \<open>external_ref\<close> repeats that of
  an earlier row.
\<close>

definition date_fields :: "string \<Rightarrow> string list" where
  "date_fields entity_type =
     (if entity_type \<in> set [''patents'', ''trademarks'', ''copyrights'']
      then [''filing_date'', ''grant_date'', ''registration_date'']
      else [])"

definition cell_missing :: "cell \<Rightarrow> bool" where
  "cell_missing v = (isna v \<or> v = Str [])"

definition missing_critical_count :: "cell frame \<Rightarrow> string \<Rightarrow> nat" where
  "missing_critical_count df entity_type =
     sum_list (map (\<lambda>field. length (filter (\<lambda>r. cell_missing (r field)) (recs df)))
                   (present_fields df (critical_fields entity_type)))"

definition invalid_date_count :: "date_parser \<Rightarrow> cell frame \<Rightarrow> string \<Rightarrow> nat" where
  "invalid_date_count parse df entity_type =
     sum_list (map (\<lambda>field. length (filter (\<lambda>r. truthy (r field) \<and> to_date parse (r field) = None)
                                          (recs df)))
                   (present_fields df (date_fields entity_type)))"

definition invalid_email_count :: "cell frame \<Rightarrow> string \<Rightarrow> nat" where
  "invalid_email_count df entity_type =
     (if entity_type = ''clients'' \<and> ''email'' \<in> set (cols df)
      then length (filter (\<lambda>r. \<not> truthy (r ''email'') \<or> parse_email (r ''email'') = [])
                          (recs df))
      else 0)"

definition duplicate_ref_count :: "cell frame \<Rightarrow> nat" where
  "duplicate_ref_count df =
     (if ''external_ref'' \<in> set (cols df)
      then length (recs df) - card (set (column df ''external_ref''))
      else 0)"

definition total_issues_of :: "date_parser \<Rightarrow> cell frame \<Rightarrow> string \<Rightarrow> nat" where
  "total_issues_of parse df entity_type =
     missing_critical_count df entity_type + invalid_date_count parse df entity_type
     + invalid_email_count df entity_type + duplicate_ref_count df"

text \<open>
  The claim's row that is missing a critical field: one of the entity type's critical
  fields is no column of the frame, or the row's cell in it is missing or empty.
\<close>

definition lacks_critical_field :: "cell frame \<Rightarrow> string \<Rightarrow> (string \<Rightarrow> cell) \<Rightarrow> bool" where
  "lacks_critical_field df entity_type r =
     list_ex (\<lambda>field. field \<notin> set (cols df) \<or> isna (r field) \<or> r field = Str [])
             (critical_fields entity_type)"

section \<open>validate: IPMSDataValidator\<close>

text \<open>
  The validator reads the legacy files from \<open>DATA_DIR\<close> and the current date from the
  clock.  Both are the \<open>world\<close>: the files by path, each either a table or a file that
  \<open>pd.read_csv\<close> fails on, and today's date in ISO format.
\<close>

datatype file_content = Unreadable string | Table "cell frame"

record world =
  files :: "string \<rightharpoonup> file_content"
  data_dir :: string
  today :: string

definition path_join :: "string \<Rightarrow> string \<Rightarrow> string" where
  "path_join dir filename = dir @ ''/'' @ filename"

text \<open>\<open>row.get(c, idx)\<close>: the row's value in column \<open>c\<close>, or the row's index.\<close>

datatype row_ident = FromRow cell | FromIndex nat

definition row_get :: "cell frame \<Rightarrow> string \<Rightarrow> (string \<Rightarrow> cell) \<Rightarrow> nat \<Rightarrow> row_ident" where
  "row_get df c r idx = (if c \<in> set (cols df) then FromRow (r c) else FromIndex idx)"

text \<open>\<open>to_date(row.get(c))\<close>: without the column the argument is \<open>None\<close>, which is null.\<close>

definition to_date_of :: "date_parser \<Rightarrow> cell frame \<Rightarrow> string \<Rightarrow> (string \<Rightarrow> cell) \<Rightarrow> string option" where
  "to_date_of parse df c r = (if c \<in> set (cols df) then to_date parse (r c) else None)"

text \<open>The order \<open><\<close> of Python strings, by code points.\<close>

fun str_less :: "string \<Rightarrow> string \<Rightarrow> bool" where
  "str_less [] [] = False"
| "str_less [] (y # ys) = True"
| "str_less (x # xs) [] = False"
| "str_less (x # xs) (y # ys) = ((of_char x :: nat) < of_char y \<or> (x = y \<and> str_less xs ys))"

record finding =
  rule :: string
  record_id :: row_ident
  message :: string

definition validate_client_business_rules :: "cell frame \<Rightarrow> finding list" where
  "validate_client_business_rules df =
     concat (map (\<lambda>(idx, row).
                    let email_v = df_get df ''email'' row
                    in if truthy email_v \<and> parse_email email_v = []
                       then [\<lparr>rule = ''Email format validation'',
                              record_id = row_get df ''client_id'' row idx,
                              message = ''Invalid email format: '' @ py_str email_v\<rparr>]
                       else [])
                 (enumerate 0 (recs df)))"

definition validate_patent_business_rules :: "date_parser \<Rightarrow> cell frame \<Rightarrow> finding list" where
  "validate_patent_business_rules parse df =
     concat (map (\<lambda>(idx, row).
                    case (to_date_of parse df ''filing_date'' row,
                          to_date_of parse df ''grant_date'' row) of
                      (Some filing, Some grant) \<Rightarrow>
                        if filing \<noteq> [] \<and> grant \<noteq> [] \<and> str_less grant filing
                        then [\<lparr>rule = ''Filing date before grant date'',
                               record_id = row_get df ''patent_id'' row idx,
                               message = ''Filing date ('' @ filing @ '') is after grant date (''
                                         @ grant @ '')''\<rparr>]
                        else []
                    | _ \<Rightarrow> [])
                 (enumerate 0 (recs df)))"

text \<open>\<open>parse_classes\<close> may raise; the exception leaves the loop over the rows.\<close>

definition validate_trademark_business_rules :: "cell frame \<Rightarrow> py_error + finding list" where
  "validate_trademark_business_rules df =
     (case collect (map (\<lambda>(idx, row).
                    let nice = df_get df ''nice_classes'' row
                    in if truthy nice
                       then (case parse_classes nice of
                               Inl e \<Rightarrow> Inl e
                             | Inr classes \<Rightarrow>
                                 Inr (if classes = []
                                      then [\<lparr>rule = ''Valid Nice classes required'',
                                             record_id = row_get df ''tm_id'' row idx,
                                             message = ''Invalid Nice classes: '' @ py_str nice\<rparr>]
                                      else []))
                       else Inr [])
                 (enumerate 0 (recs df))) of
        Inl e \<Rightarrow> Inl e
      | Inr found \<Rightarrow> Inr (concat found))"

text \<open>
  \<open>df['status']\<close> raises \<open>KeyError\<close> on a frame without that column, and
  \<open>.str.lower()\<close> raises \<open>AttributeError\<close> on a column that is not one of strings.
\<close>

definition validate_deadline_business_rules ::
  "date_parser \<Rightarrow> string \<Rightarrow> cell frame \<Rightarrow> py_error + finding list"
where
  "validate_deadline_business_rules parse current_date df =
     (if ''status'' \<notin> set (cols df) then Inl (KeyError ''status'')
      else if \<not> str_dtype df ''status'' then Inl str_accessor_error
      else Inr (concat (map (\<lambda>(idx, row).
                    case to_date_of parse df ''due_date'' row of
                      Some due \<Rightarrow>
                        if due \<noteq> [] \<and> str_less due current_date
                        then [\<lparr>rule = ''Pending deadline due date validation'',
                               record_id = row_get df ''deadline_id'' row idx,
                               message = ''Pending deadline has past due date: '' @ due\<rparr>]
                        else []
                    | None \<Rightarrow> [])
                 (filter (\<lambda>(idx, row). str_lower (row ''status'') = Str ''pending'')
                         (enumerate 0 (recs df))))))"

text \<open>
  The results of the two checks are dictionaries with the keys \<open>status\<close>, \<open>errors\<close>,
  \<open>warnings\<close> and a count; their fields carry a prefix here.
\<close>

record business_validation =
  b_status :: string
  b_errors :: "finding list"
  b_warnings :: "finding list"
  rules_checked :: nat

record referential_validation =
  r_status :: string
  r_errors :: "finding list"
  r_warnings :: "finding list"
  references_checked :: nat

definition validate_business_rules ::
  "date_parser \<Rightarrow> string \<Rightarrow> cell frame \<Rightarrow> string \<Rightarrow> py_error + business_validation"
where
  "validate_business_rules parse current_date df entity_type =
     (case (if entity_type = ''clients'' then Inr (validate_client_business_rules df)
            else if entity_type = ''patents'' then Inr (validate_patent_business_rules parse df)
            else if entity_type = ''trademarks'' then validate_trademark_business_rules df
            else if entity_type = ''deadlines''
            then validate_deadline_business_rules parse current_date df
            else Inr []) of
        Inl e \<Rightarrow> Inl e
      | Inr errors \<Rightarrow>
          Inr \<lparr>b_status = ''completed'', b_errors = errors, b_warnings = [],
               rules_checked = length errors\<rparr>)"

text \<open>\<open>df['client_id'].isin(valid_client_ids)\<close> on one cell; the valid ids are strings.\<close>

fun isin :: "cell \<Rightarrow> string list \<Rightarrow> bool" where
  "isin NaN valid = False"
| "isin (Str s) valid = (s \<in> set valid)"

definition validate_referential_integrity ::
  "world \<Rightarrow> cell frame \<Rightarrow> string \<Rightarrow> py_error + referential_validation"
where
  "validate_referential_integrity w df entity_type =
     (case (case files w (path_join (data_dir w) ''clients.csv'') of
              None \<Rightarrow> Inr []
            | Some (Unreadable msg) \<Rightarrow> Inl (OtherError msg)
            | Some (Table clients_df) \<Rightarrow>
                if ''client_id'' \<notin> set (cols clients_df) then Inl (KeyError ''client_id'')
                else let valid_client_ids = map py_str (column clients_df ''client_id'')
                     in if ''client_id'' \<in> set (cols df)
                        then Inr (map (\<lambda>(idx, row).
                                    \<lparr>rule = ''Valid client reference'',
                                     record_id = row_get df (butlast entity_type @ ''_id'') row idx,
                                     message = ''Invalid client_id reference: ''
                                               @ py_str (row ''client_id'')\<rparr>)
                                  (filter (\<lambda>(idx, row). \<not> isin (row ''client_id'') valid_client_ids)
                                          (enumerate 0 (recs df))))
                        else Inr []) of
        Inl e \<Rightarrow> Inl e
      | Inr errors \<Rightarrow>
          Inr \<lparr>r_status = ''completed'', r_errors = errors, r_warnings = [],
               references_checked = (if ''client_id'' \<in> set (cols df) then length (recs df) else 0)\<rparr>)"

text \<open>\<open>round(quality_score * 0.7 + business_score * 0.3, 2)\<close>.\<close>

definition calculate_overall_score :: "arith \<Rightarrow> quality_metrics \<Rightarrow> business_validation \<Rightarrow> rat" where
  "calculate_overall_score ar qm bv =
     (let business_errors = length (b_errors bv);
          business_score = (if 0 < business_errors
                            then max 0 (100 - int business_errors * 5) else 100)
      in round2 ar (fl ar (fl ar (quality_score qm * fl ar (7 / 10))
                           + fl ar (of_int business_score * fl ar (3 / 10)))))"

text \<open>
  The result of \<open>validate_file\<close>: the error entry, with \<open>status\<close> \<open>error\<close> and
  \<open>quality_score\<close> 0, or the success entry with its \<open>overall_score\<close>.
\<close>

datatype validation_result =
  ErrorResult string string string
| SuccessResult string string nat quality_metrics business_validation referential_validation rat

fun result_status :: "validation_result \<Rightarrow> string" where
  "result_status (ErrorResult entity_type file_path err) = ''error''"
| "result_status (SuccessResult entity_type file_path n qm bv rv overall) = ''success''"


fun result_overall_score :: "validation_result \<Rightarrow> rat option" where
  "result_overall_score (ErrorResult entity_type file_path err) = None"
| "result_overall_score (SuccessResult entity_type file_path n qm bv rv overall) = Some overall"

text \<open>\<open>str(e)\<close> of the exception caught.\<close>

fun error_text :: "py_error \<Rightarrow> string" where
  "error_text (KeyError k) = [CHR 0x27] @ k @ [CHR 0x27]"
| "error_text (AttributeError m) = m"
| "error_text (ValueError m) = m"
| "error_text (OtherError m) = m"

text \<open>The body of the \<open>try\<close> block of \<open>validate_file\<close>; \<open>Inl\<close> is an exception raised in it.\<close>

definition validate_loaded ::
  "arith \<Rightarrow> date_parser \<Rightarrow> world \<Rightarrow> string \<Rightarrow> string \<Rightarrow> file_content
     \<Rightarrow> py_error + validation_result"
where
  "validate_loaded ar parse w file_path entity_type content =
     (case content of
        Unreadable msg \<Rightarrow> Inl (OtherError msg)
      | Table df \<Rightarrow>
          let qm = validate_data_quality ar parse df entity_type
          in case validate_business_rules parse (today w) df entity_type of
               Inl e \<Rightarrow> Inl e
             | Inr bv \<Rightarrow>
                 (case validate_referential_integrity w df entity_type of
                    Inl e \<Rightarrow> Inl e
                  | Inr rv \<Rightarrow>
                      Inr (SuccessResult entity_type file_path (length (recs df)) qm bv rv
                             (calculate_overall_score ar qm bv))))"

definition validate_file ::
  "arith \<Rightarrow> date_parser \<Rightarrow> world \<Rightarrow> string \<Rightarrow> string \<Rightarrow> validation_result"
where
  "validate_file ar parse w file_path entity_type =
     (case files w file_path of
        None \<Rightarrow> ErrorResult entity_type file_path (''File not found: '' @ file_path)
      | Some content \<Rightarrow>
          (case validate_loaded ar parse w file_path entity_type content of
             Inl e \<Rightarrow>
               ErrorResult entity_type file_path
                 (''Error validating '' @ entity_type @ '': '' @ error_text e)
           | Inr result \<Rightarrow> result))"

definition files_to_validate :: "(string \<times> string) list" where
  "files_to_validate =
     [(''clients.csv'', ''clients''), (''patents.csv'', ''patents''),
      (''trademarks.csv'', ''trademarks''), (''deadlines.csv'', ''deadlines'')]"

record validation_summary =
  system_quality_score :: rat
  entities_validated :: nat
  results :: "(string \<times> validation_result) list"

text \<open>
  \<open>if result.get('overall_score'): overall_scores.append(...)\<close>: the score is appended
  when it is present and true, and the float 0.0 is false.
\<close>

definition truthy_overall_scores :: "(string \<times> validation_result) list \<Rightarrow> rat list" where
  "truthy_overall_scores rs =
     concat (map (\<lambda>(entity_type, result).
                    case result_overall_score result of
                      None \<Rightarrow> []
                    | Some score \<Rightarrow> if score \<noteq> 0 then [score] else [])
                 rs)"

text \<open>\<open>sum(overall_scores) / len(overall_scores) if overall_scores else 0\<close>.\<close>

definition mean_of :: "arith \<Rightarrow> rat list \<Rightarrow> rat" where
  "mean_of ar scores =
     (if scores \<noteq> []
      then fl ar (foldl (\<lambda>acc x. fl ar (acc + x)) 0 scores / of_nat (length scores))
      else 0)"

text \<open>
  The timestamp of the summary and the writing of the report file are left out: the
  result is the summary that \<open>validate_all\<close> returns.
\<close>

definition validate_all :: "arith \<Rightarrow> date_parser \<Rightarrow> world \<Rightarrow> validation_summary" where
  "validate_all ar parse w =
     (let rs = map (\<lambda>(filename, entity_type).
                      (entity_type,
                       validate_file ar parse w (path_join (data_dir w) filename) entity_type))
                   files_to_validate;
          system_score = mean_of ar (truthy_overall_scores rs)
      in \<lparr>system_quality_score = round2 ar system_score,
          entities_validated = length rs,
          results = rs\<rparr>)"

text \<open>
  The specification's system score: the mean of the overall scores of every entity whose
  validation succeeded, a score of 0 included.
\<close>

definition successful_overall_scores :: "(string \<times> validation_result) list \<Rightarrow> rat list" where
  "successful_overall_scores rs =
     concat (map (\<lambda>(entity_type, result).
                    case result_overall_score result of None \<Rightarrow> [] | Some score \<Rightarrow> [score])
                 rs)"

definition system_score_spec :: "arith \<Rightarrow> (string \<times> validation_result) list \<Rightarrow> rat" where
  "system_score_spec ar rs = round2 ar (mean_of ar (successful_overall_scores rs))"

text \<open>An example store with files for two entities: twenty clients, all with malformed emails, and one patent.\<close>

definition bad_client :: "string \<Rightarrow> cell" where
  "bad_client = (\<lambda>c. NaN)(''client_id'' := Str ''CL-0001'', ''client_name'' := Str ''Acme'',
                           ''email'' := Str ''bad'')"

definition good_patent :: "string \<Rightarrow> cell" where
  "good_patent = (\<lambda>c. NaN)(''patent_id'' := Str ''PT-0001'', ''client_id'' := Str ''CL-0001'',
                            ''title'' := Str ''Valve'', ''status'' := Str ''granted'')"

definition example_world :: world where
  "example_world =
     \<lparr>files = [''data/clients.csv'' \<mapsto>
                  Table \<lparr>cols = [''client_id'', ''client_name'', ''email''],
                         recs = replicate 20 bad_client\<rparr>,
                ''data/patents.csv'' \<mapsto>
                  Table \<lparr>cols = [''patent_id'', ''client_id'', ''title'', ''status''],
                         recs = [good_patent]\<rparr>],
      data_dir = ''data'',
      today = ''2024-06-01''\<rparr>"




section \<open>Properties of normalize\_status\<close>

lemma find_Some_mem: "find P xs = Some x \<Longrightarrow> x \<in> set xs"
  by (induction xs) (auto split: if_splits)

text \<open>
  Claim C10.  For every input string and every entity type, \<open>normalize_status\<close> returns
  one of the canonical status keys of that entity type's table or the default
  \<open>pending\<close>; and for an entity type that has no table in \<open>STATUS_MAPPINGS\<close> (such as
  \<open>deadline\<close> or the plural \<open>patents\<close>) it returns \<open>pending\<close> for every input.
\<close>

theorem normalize_status_canonical:
  "normalize_status raw entity_type
     \<in> insert ''pending'' (fst ` set (status_mappings_get entity_type))
   \<and> (map_of STATUS_MAPPINGS entity_type = None
        \<longrightarrow> normalize_status raw entity_type = ''pending'')"
proof
  show "normalize_status raw entity_type
          \<in> insert ''pending'' (fst ` set (status_mappings_get entity_type))"
    unfolding normalize_status_def Let_def exact_match_def partial_match_def
    by (auto split: option.splits dest!: find_Some_mem intro: rev_image_eqI)
next
  show "map_of STATUS_MAPPINGS entity_type = None
          \<longrightarrow> normalize_status raw entity_type = ''pending''"
    unfolding normalize_status_def Let_def exact_match_def partial_match_def
      status_mappings_get_def
    by (auto split: option.splits)
qed

theorem normalize_status_canonical_witness:
  "map_of STATUS_MAPPINGS ''patents'' = None
   \<and> normalize_status ''Granted'' ''patents'' = ''pending''
   \<and> map_of STATUS_MAPPINGS ''deadline'' = None
   \<and> normalize_status ''completed'' ''deadline'' = ''pending''"
proof -
  have p: "map_of STATUS_MAPPINGS ''patents'' = None"
    by (simp add: STATUS_MAPPINGS_def)
  have d: "map_of STATUS_MAPPINGS ''deadline'' = None"
    by (simp add: STATUS_MAPPINGS_def)
  from p d show ?thesis
    using normalize_status_canonical [of "''Granted''" "''patents''"]
      normalize_status_canonical [of "''completed''" "''deadline''"]
    by simp
qed

section \<open>Properties of split\_name\<close>

lemma split_where_ne: "split_where P s \<noteq> []"
  by (induction s) (auto split: list.splits)

lemma hd_split_where: "hd (split_where P s) = takeWhile (\<lambda>c. \<not> P c) s"
  by (induction s) (auto split: list.splits simp: split_where_ne)

lemma tl_split_where:
  "dropWhile (\<lambda>c. \<not> P c) s = c # cs \<Longrightarrow> tl (split_where P s) = split_where P cs"
  by (induction s) (auto split: list.splits if_splits simp: split_where_ne)

lemma length_split_where: "length (split_where P s) = Suc (length (filter P s))"
  by (induction s) (auto split: list.splits simp: split_where_ne)

lemma nth0_split_on: "split_on sep s ! 0 = takeWhile (\<lambda>c. c \<noteq> sep) s"
  unfolding split_on_def using hd_split_where [of "\<lambda>c. c = sep" s] split_where_ne [of "\<lambda>c. c = sep" s]
  by (simp add: hd_conv_nth)

lemma nth1_split_on:
  assumes "sep \<in> set s"
  shows "split_on sep s ! 1 = takeWhile (\<lambda>c. c \<noteq> sep) (drop 1 (dropWhile (\<lambda>c. c \<noteq> sep) s))"
proof -
  from assms obtain c cs where d: "dropWhile (\<lambda>c. c \<noteq> sep) s = c # cs"
    by (cases "dropWhile (\<lambda>c. c \<noteq> sep) s") (auto simp: dropWhile_eq_Nil_conv)
  have t: "tl (split_where (\<lambda>c. c = sep) s) = split_where (\<lambda>c. c = sep) cs"
    using tl_split_where [of "\<lambda>c. c = sep" s c cs] d by simp
  have "split_where (\<lambda>c. c = sep) s ! 1 = hd (tl (split_where (\<lambda>c. c = sep) s))"
    using split_where_ne [of "\<lambda>c. c = sep" s] split_where_ne [of "\<lambda>c. c = sep" cs] t
    by (cases "split_where (\<lambda>c. c = sep) s") (auto simp: hd_conv_nth)
  then show ?thesis
    unfolding split_on_def using t d hd_split_where [of "\<lambda>c. c = sep" cs] by simp
qed

lemma length_split_on: "sep \<in> set s \<Longrightarrow> 2 \<le> length (split_on sep s)"
  unfolding split_on_def length_split_where
  by (simp add: Suc_le_eq filter_empty_conv length_greater_0_conv)


lemma concat_split_where: "concat (split_where P s) = filter (\<lambda>c. \<not> P c) s"
  by (induction s) (auto split: list.splits simp: split_where_ne)

lemma split_ws_ne:
  assumes "c \<in> set s" "\<not> is_space c"
  shows "split_ws s \<noteq> []"
proof
  assume "split_ws s = []"
  then have "\<forall>w \<in> set (split_where is_space s). w = []"
    by (auto simp: split_ws_def filter_empty_conv)
  then have "concat (split_where is_space s) = []" by simp
  then have "filter (\<lambda>c. \<not> is_space c) s = []" by (simp add: concat_split_where)
  with assms show False by (auto simp: filter_empty_conv)
qed

lemma strip_nonspace: "strip s \<noteq> [] \<Longrightarrow> \<exists>c \<in> set (strip s). \<not> is_space c"
proof -
  assume a: "strip s \<noteq> []"
  let ?d = "dropWhile is_space (rev (dropWhile is_space s))"
  from a have ne: "?d \<noteq> []" by (simp add: strip_def)
  then have "\<not> is_space (hd ?d)" by (rule hd_dropWhile)
  moreover from ne have "hd ?d \<in> set ?d" by simp
  ultimately show ?thesis unfolding strip_def by auto
qed

lemma dropWhile_keeps: "c \<in> set ds \<Longrightarrow> \<not> P c \<Longrightarrow> c \<in> set (dropWhile P ds)"
  by (induction ds) auto

lemma collapse_ws_keeps: "c \<in> set s \<Longrightarrow> \<not> is_space c \<Longrightarrow> c \<in> set (collapse_ws s)"
proof (induction s rule: collapse_ws.induct)
  case 1
  then show ?case by simp
next
  case (2 d ds)
  show ?case
  proof (cases "is_space d")
    case True
    with 2 have "c \<in> set ds" by auto
    with 2 have "c \<in> set (dropWhile is_space ds)"
      by (simp add: dropWhile_keeps)
    with 2 True show ?thesis by simp
  next
    case False
    with 2 show ?thesis by auto
  qed
qed

lemma clean_string_tokens: "clean_string v \<noteq> [] \<Longrightarrow> split_ws (clean_string v) \<noteq> []"
proof -
  assume a: "clean_string v \<noteq> []"
  then have c: "clean_string v = collapse_ws (strip (py_str v))"
    by (auto simp: clean_string_def Let_def split: if_splits)
  with a have "strip (py_str v) \<noteq> []" by auto
  then obtain ch where "ch \<in> set (strip (py_str v))" "\<not> is_space ch"
    using strip_nonspace by blast
  then have "ch \<in> set (collapse_ws (strip (py_str v)))" "\<not> is_space ch"
    by (auto intro: collapse_ws_keeps)
  then have "split_ws (collapse_ws (strip (py_str v))) \<noteq> []"
    by (rule split_ws_ne)
  with c show ?thesis by simp
qed

lemma tokens_to_name_chain:
  "parts \<noteq> [] \<Longrightarrow>
   tokens_to_name parts =
     (if length parts = 1 then \<lparr>first_name = [], last_name = str_title (parts ! 0)\<rparr>
      else if length parts = 2
      then \<lparr>first_name = str_title (parts ! 0), last_name = str_title (parts ! 1)\<rparr>
      else if 2 < length parts
      then \<lparr>first_name = str_title (parts ! 0), last_name = str_title (py_join '' '' (drop 1 parts))\<rparr>
      else x)"
  by (auto simp: tokens_to_name_def split: list.splits)

text \<open>
  Claim C8, as amended.  For every input string, \<open>split_name\<close> yields both fields empty
  when the cleaned value is empty; when the cleaned value contains a comma it is cut at
  every comma, the first piece (stripped, title-cased) is the last name and the second
  piece, the text between the first and the second comma, is the first name; otherwise
  the whitespace-separated tokens are distributed by their number: one token is the last
  name, two tokens are first and last name, and of more than two the first is the first
  name and the others, joined by single spaces, the last name (all title-cased).
\<close>

theorem split_name_every_comma: "split_name (Str v) = split_name_amended v"
proof (cases "v = []")
  case True
  then show ?thesis
    by (simp add: split_name_def split_name_amended_def clean_string_def strip_def)
next
  case False
  show ?thesis
  proof (cases "clean_string (Str v) = []")
    case True
    then show ?thesis by (simp add: split_name_def split_name_amended_def)
  next
    case ne: False
    show ?thesis
    proof (cases "CHR '','' \<in> set (clean_string (Str v))")
      case True
      let ?ps = "split_on CHR '','' (clean_string (Str v))"
      have len: "2 \<le> length ?ps" by (rule length_split_on [OF True])
      from len have l0: "0 < length ?ps" and l1: "1 < length ?ps"
        by linarith+
      have m0: "map strip ?ps ! 0 = strip (?ps ! 0)"
        by (rule nth_map [OF l0])
      have m1: "map strip ?ps ! 1 = strip (?ps ! 1)"
        by (rule nth_map [OF l1])
      show ?thesis
        using False ne True len nth1_split_on [OF True]
          nth0_split_on [of "CHR '',''" "clean_string (Str v)"]
        by (simp add: split_name_def split_name_amended_def Let_def before_comma_def
            after_comma_def m0 m1 del: One_nat_def)
    next
      case nc: False
      from ne have "split_ws (clean_string (Str v)) \<noteq> []" by (rule clean_string_tokens)
      from tokens_to_name_chain [OF this] show ?thesis
        using False ne nc
        by (simp add: split_name_def split_name_amended_def Let_def)
    qed
  qed
qed

text \<open>
  Claim C8, as stated, fails: with a second comma in the value, the text after the first
  comma is not the first name.  The source splits at every comma and reads only the first
  two pieces.
\<close>

theorem split_name_first_comma_counterexample:
  "first_name (split_name (Str ''Smith, Mia, Jr'')) = ''Mia''
   \<and> first_name (split_name_spec ''Smith, Mia, Jr'') = ''Mia, Jr''"
  by code_simp

section \<open>Properties of to\_date\<close>

lemma digit_chars_nth: "k < 10 \<Longrightarrow> is_digit (digit_chars ! k) \<and> digit_val (digit_chars ! k) = k"
proof -
  have "list_all (\<lambda>k. is_digit (digit_chars ! k) \<and> digit_val (digit_chars ! k) = k) [0..<10]"
    by code_simp
  moreover assume "k < 10"
  ultimately show ?thesis by (simp add: list_all_iff)
qed

lemma is_digit_digit_of: "is_digit (digit_of n)"
  by (simp add: digit_of_def digit_chars_nth)

lemma digit_val_digit_of: "digit_val (digit_of n) = n mod 10"
  by (simp add: digit_of_def digit_chars_nth)

lemma dec_digits: "list_all is_digit (dec n)"
  by (induction n rule: dec.induct) (subst dec.simps, simp add: is_digit_digit_of)

lemma int_of_digits_snoc: "int_of_digits (s @ [c]) = 10 * int_of_digits s + digit_val c"
  by (simp add: int_of_digits_def)

lemma int_of_digits_dec: "int_of_digits (dec n) = n"
proof (induction n rule: dec.induct)
  case (1 n)
  show ?case
  proof (cases "n < 10")
    case True
    then show ?thesis
      by (subst dec.simps) (simp add: int_of_digits_def digit_val_digit_of)
  next
    case False
    with 1 show ?thesis
      by (subst dec.simps) (simp add: int_of_digits_snoc digit_val_digit_of)
  qed
qed

lemma foldl_zeros: "foldl (\<lambda>a c. 10 * a + digit_val c) 0 (replicate k CHR ''0'') = 0"
  by (induction k) (simp_all add: digit_val_def digit_chars_def)

lemma int_of_digits_zfill: "int_of_digits (zfill w s) = int_of_digits s"
  by (simp add: zfill_def int_of_digits_def foldl_zeros)

lemma zfill_digits: "list_all is_digit s \<Longrightarrow> list_all is_digit (zfill w s)"
proof -
  have z: "is_digit CHR ''0''" by (simp add: is_digit_def digit_chars_def)
  assume "list_all is_digit s"
  with z show ?thesis by (auto simp: zfill_def list_all_iff)
qed

lemma length_dec_le: "0 < k \<Longrightarrow> n < 10 ^ k \<Longrightarrow> length (dec n) \<le> k"
proof (induction k arbitrary: n)
  case 0
  then show ?case by simp
next
  case (Suc k)
  show ?case
  proof (cases "n < 10")
    case True
    then show ?thesis by (subst dec.simps) simp
  next
    case False
    then have k: "0 < k" using Suc.prems by (cases k) auto
    from Suc.prems have "n div 10 < 10 ^ k"
      by (simp add: less_mult_imp_div_less mult.commute)
    with Suc.IH k have "length (dec (n div 10)) \<le> k" by simp
    with False show ?thesis by (subst dec.simps) simp
  qed
qed

lemma length_zfill: "length s \<le> w \<Longrightarrow> length (zfill w s) = w"
  by (simp add: zfill_def)

lemma iso_shape:
  assumes "length y = 4" "length m = 2" "length d = 2"
  shows "is_iso_date (y @ ''-'' @ m @ ''-'' @ d) =
     (list_all is_digit y \<and> list_all is_digit m \<and> list_all is_digit d
      \<and> 1 \<le> int_of_digits m \<and> int_of_digits m \<le> 12
      \<and> 1 \<le> int_of_digits d \<and> int_of_digits d \<le> 31)"
  using assms by (auto simp: is_iso_date_def nth_append)

lemma isoformat_is_iso_date: "valid_pdate d \<Longrightarrow> is_iso_date (isoformat d)"
proof -
  assume v: "valid_pdate d"
  have ly: "length (zfill 4 (dec (year d))) = 4"
    using v length_dec_le [of 4 "year d"] by (intro length_zfill) (simp add: valid_pdate_def)
  have lm: "length (zfill 2 (dec (month d))) = 2"
    using v length_dec_le [of 2 "month d"] by (intro length_zfill) (simp add: valid_pdate_def)
  have ld: "length (zfill 2 (dec (day d))) = 2"
    using v length_dec_le [of 2 "day d"] by (intro length_zfill) (simp add: valid_pdate_def)
  show ?thesis
    unfolding isoformat_def iso_shape [OF ly lm ld]
    using v by (simp add: zfill_digits dec_digits int_of_digits_zfill int_of_digits_dec valid_pdate_def)
qed

lemma clean_string_fixed:
  "s \<in> set bad_dates \<Longrightarrow> clean_string (Str s) = s"
proof -
  have 1: "clean_string (Str ''00/00/0000'') = ''00/00/0000''" by code_simp
  have 2: "clean_string (Str ''1900-01-01'') = ''1900-01-01''" by code_simp
  have 3: "clean_string (Str ''0000-00-00'') = ''0000-00-00''" by code_simp
  have 4: "clean_string (Str ''01/01/1900'') = ''01/01/1900''" by code_simp
  assume "s \<in> set bad_dates"
  then have "s = ''00/00/0000'' \<or> s = ''1900-01-01'' \<or> s = ''0000-00-00'' \<or> s = ''01/01/1900''"
    by (simp add: bad_dates_def)
  with 1 2 3 4 show ?thesis by blast
qed

lemma clean_string_isna: "clean_string c \<noteq> [] \<Longrightarrow> \<not> isna c"
  by (cases c) (simp_all add: clean_string_def)

text \<open>
  Claim C6.  \<open>to_date\<close> (the specification's \<open>parse_date\<close>) returns null for every input
  in the sentinel set of bad dates, and for every input whose parse has a year outside
  1900..2050; whenever it returns a string, that string is an ISO-8601 date (the parser
  returning calendar dates), namely the ISO rendering of what the parser returns for the
  cleaned text with \<open>dayfirst\<close> and \<open>yearfirst\<close> unset; so with the parser reading the
  ambiguous \<open>05/01/2024\<close> month-first, the result is \<open>2024-05-01\<close>.
\<close>

theorem to_date_contract:
  "(v \<in> set bad_dates \<longrightarrow> to_date parse (Str v) = None)
   \<and> (parse (clean_string c) False False = Some d \<and> (year d < 1900 \<or> 2050 < year d)
        \<longrightarrow> to_date parse c = None)
   \<and> ((\<forall>t e. parse t False False = Some e \<longrightarrow> valid_pdate e) \<and> to_date parse c = Some s
        \<longrightarrow> is_iso_date s)
   \<and> (parse (clean_string c) False False = Some d \<and> 1900 \<le> year d \<and> year d \<le> 2050
        \<and> truthy c \<and> clean_string c \<noteq> [] \<and> clean_string c \<notin> set bad_dates
        \<longrightarrow> to_date parse c = Some (isoformat d))
   \<and> (parse ''05/01/2024'' False False = Some \<lparr>year = 2024, month = 5, day = 1\<rparr>
        \<longrightarrow> to_date parse (Str ''05/01/2024'') = Some ''2024-05-01'')"
proof (intro conjI impI)
  assume "v \<in> set bad_dates"
  then show "to_date parse (Str v) = None"
    by (simp add: to_date_def clean_string_fixed)
next
  assume "parse (clean_string c) False False = Some d \<and> (year d < 1900 \<or> 2050 < year d)"
  then show "to_date parse c = None"
    by (auto simp: to_date_def Let_def)
next
  assume a: "(\<forall>t e. parse t False False = Some e \<longrightarrow> valid_pdate e) \<and> to_date parse c = Some s"
  then obtain e where "parse (clean_string c) False False = Some e" "s = isoformat e"
    by (auto simp: to_date_def Let_def split: if_splits option.splits)
  with a show "is_iso_date s" by (auto intro: isoformat_is_iso_date)
next
  assume a: "parse (clean_string c) False False = Some d \<and> 1900 \<le> year d \<and> year d \<le> 2050
        \<and> truthy c \<and> clean_string c \<noteq> [] \<and> clean_string c \<notin> set bad_dates"
  then have "\<not> isna c" by (simp add: clean_string_isna)
  with a show "to_date parse c = Some (isoformat d)"
    by (simp add: to_date_def Let_def)
next
  have c: "clean_string (Str ''05/01/2024'') = ''05/01/2024''" by code_simp
  have i: "isoformat \<lparr>year = 2024, month = 5, day = 1\<rparr> = ''2024-05-01''" by code_simp
  have b: "''05/01/2024'' \<notin> set bad_dates" by code_simp
  assume "parse ''05/01/2024'' False False = Some \<lparr>year = 2024, month = 5, day = 1\<rparr>"
  with c i b show "to_date parse (Str ''05/01/2024'') = Some ''2024-05-01''"
    by (simp add: to_date_def Let_def)
qed

lemma make_pdate_valid: "make_pdate y m d = Some e \<Longrightarrow> valid_pdate e"
  by (auto simp: make_pdate_def valid_pdate_def split: if_splits)

lemma numeric_date_parser_valid: "numeric_date_parser t df yf = Some e \<Longrightarrow> valid_pdate e"
  unfolding numeric_date_parser_def
  by (auto split: list.splits if_splits dest: make_pdate_valid)

theorem to_date_contract_witness:
  "''1900-01-01'' \<in> set bad_dates
   \<and> to_date numeric_date_parser (Str ''1900-01-01'') = None
   \<and> numeric_date_parser (clean_string (Str ''12/31/2051'')) False False
       = Some \<lparr>year = 2051, month = 12, day = 31\<rparr>
   \<and> to_date numeric_date_parser (Str ''12/31/2051'') = None
   \<and> to_date numeric_date_parser (Str '' 2024-01-05 '') = Some ''2024-01-05''
   \<and> is_iso_date ''2024-01-05''
   \<and> numeric_date_parser ''05/01/2024'' False False = Some \<lparr>year = 2024, month = 5, day = 1\<rparr>
   \<and> to_date numeric_date_parser (Str ''05/01/2024'') = Some ''2024-05-01''"
proof -
  have b: "''1900-01-01'' \<in> set bad_dates" by (simp add: bad_dates_def)
  have p: "numeric_date_parser (clean_string (Str ''12/31/2051'')) False False
       = Some \<lparr>year = 2051, month = 12, day = 31\<rparr>" by code_simp
  have y: "2050 < year \<lparr>year = 2051, month = 12, day = 31\<rparr>" by simp
  have t: "to_date numeric_date_parser (Str '' 2024-01-05 '') = Some ''2024-01-05''" by code_simp
  have w: "\<forall>t e. numeric_date_parser t False False = Some e \<longrightarrow> valid_pdate e"
    by (auto dest: numeric_date_parser_valid)
  have m: "numeric_date_parser ''05/01/2024'' False False = Some \<lparr>year = 2024, month = 5, day = 1\<rparr>"
    by code_simp
  show ?thesis
    using b p y t w m
      to_date_contract [of "''1900-01-01''" numeric_date_parser "Str ''12/31/2051''"
        "\<lparr>year = 2051, month = 12, day = 31\<rparr>" "''2024-01-05''"]
      to_date_contract [of "''1900-01-01''" numeric_date_parser "Str '' 2024-01-05 ''"
        "\<lparr>year = 2051, month = 12, day = 31\<rparr>" "''2024-01-05''"]
    by blast
qed

section \<open>Properties of the transforms\<close>

lemma keep_first_unseen: "x \<in> set (keep_first key seen xs) \<Longrightarrow> key x \<notin> set seen"
proof (induction xs arbitrary: seen)
  case Nil
  then show ?case by simp
next
  case (Cons a xs)
  show ?case
  proof (cases "key a \<in> set seen")
    case True
    with Cons show ?thesis by simp
  next
    case False
    with Cons.prems have "x = a \<or> x \<in> set (keep_first key (key a # seen) xs)" by simp
    then show ?thesis
    proof
      assume "x = a"
      with False show ?thesis by simp
    next
      assume "x \<in> set (keep_first key (key a # seen) xs)"
      then have "key x \<notin> set (key a # seen)" by (rule Cons.IH)
      then show ?thesis by simp
    qed
  qed
qed

lemma keep_first_distinct: "distinct (map key (keep_first key seen xs))"
  by (induction xs arbitrary: seen) (auto dest: keep_first_unseen)

lemma drop_duplicates_distinct: "distinct (map key (drop_duplicates key xs))"
  by (simp add: drop_duplicates_def keep_first_distinct)

lemma transform_clients_unique:
  "transform_clients parse df = Inr out \<Longrightarrow> distinct (map external_ref out)"
  by (auto simp: transform_clients_def drop_duplicates_distinct split: if_splits)

text \<open>
  Claim C1 asks that the transformed output of every entity type has at most one row per
  \<open>external_ref\<close>.  \<open>transform_clients\<close> ensures it (\<open>transform_clients_unique\<close>), the
  other three transforms do not drop duplicates: two legacy rows with the same key give
  two output rows with the same \<open>external_ref\<close>.
\<close>

theorem transform_keeps_duplicates:
  "map external_ref (projr (transform_patents parse jurisdiction_map
      \<lparr>cols = [''patent_id'', ''client_id'', ''title'', ''filing_date'', ''grant_date'',
               ''jurisdiction'', ''status''],
       recs = [(\<lambda>c. NaN)(''patent_id'' := Str ''PT-0001'', ''title'' := Str ''Valve''),
               (\<lambda>c. NaN)(''patent_id'' := Str ''PT-0001'', ''title'' := Str ''Pump'')]\<rparr>
      client_map))
     = [''PT-0001'', ''PT-0001'']
   \<and> map external_ref (projr (transform_trademarks parse
      \<lparr>cols = [''tm_id'', ''client_id'', ''mark_text'', ''class'', ''filing_date'', ''status''],
       recs = [(\<lambda>c. NaN)(''tm_id'' := Str ''TM-0001'', ''mark_text'' := Str ''Acme''),
               (\<lambda>c. NaN)(''tm_id'' := Str ''TM-0001'', ''mark_text'' := Str ''Apex'')]\<rparr>
      client_map))
     = [''TM-0001'', ''TM-0001'']
   \<and> map external_ref (projr (transform_deadlines parse
      \<lparr>cols = [''dl_id'', ''related_type'', ''related_id'', ''related_table'', ''due_date''],
       recs = [(\<lambda>c. NaN)(''dl_id'' := Str ''DL-0001'', ''related_type'' := Str ''patent''),
               (\<lambda>c. NaN)(''dl_id'' := Str ''DL-0001'', ''related_type'' := Str ''trademark'')]\<rparr>
      patent_map tm_map))
     = [''DL-0001'', ''DL-0001'']"
proof -
  have p: "str_strip (Str ''PT-0001'') = ''PT-0001''" by code_simp
  have t: "str_strip (Str ''TM-0001'') = ''TM-0001''" by code_simp
  have d: "str_strip (Str ''DL-0001'') = ''DL-0001''" by code_simp
  show ?thesis
    by (simp add: transform_patents_def patent_of_def transform_trademarks_def trademark_of_def
        transform_deadlines_def deadline_of_def parse_classes_def str_dtype_def column_def p t d)
qed


lemma to_date_iso:
  assumes "\<forall>t e. parse t False False = Some e \<longrightarrow> valid_pdate e"
  shows "iso_date_or_null (to_date parse c)"
proof (cases "to_date parse c")
  case None
  then show ?thesis by simp
next
  case (Some s)
  then obtain e where "parse (clean_string c) False False = Some e" "s = isoformat e"
    by (auto simp: to_date_def Let_def split: if_splits option.splits)
  with assms Some show ?thesis by (auto intro: isoformat_is_iso_date)
qed

lemma country_map_values: "(k, v) \<in> set COUNTRY_MAP \<Longrightarrow> is_alpha2 v"
proof -
  have "list_all (\<lambda>(k, v). is_alpha2 v) COUNTRY_MAP" by code_simp
  then show "(k, v) \<in> set COUNTRY_MAP \<Longrightarrow> is_alpha2 v"
    by (auto simp: list_all_iff)
qed

lemma iso2_alpha2: "alpha2_or_null (iso2 c)"
proof (cases "iso2 c")
  case None
  then show ?thesis by simp
next
  case (Some code)
  have f: "is_alpha2 ''US''" "is_alpha2 ''GB''" "is_alpha2 ''DE''" by code_simp+
  from Some have "(\<exists>k. (k, code) \<in> set COUNTRY_MAP) \<or> code \<in> {''US'', ''GB'', ''DE''}"
    unfolding iso2_def Let_def
    by (auto split: if_splits option.splits prod.splits dest: map_of_SomeD find_Some_mem)
  with f Some show ?thesis by (auto dest: country_map_values)
qed

lemma collect_Inr: "collect xs = Inr vs \<Longrightarrow> xs = map Inr vs"
  by (induction xs arbitrary: vs) (auto split: sum.splits)

lemma part_numbers_valid: "part_numbers part = Inr ns \<Longrightarrow> list_all valid_nice_class ns"
  by (auto simp: part_numbers_def Let_def list_all_iff split: if_splits sum.splits)

lemma parse_classes_canonical:
  assumes "parse_classes c = Inr ns"
  shows "sorted ns \<and> distinct ns \<and> list_all valid_nice_class ns"
proof (cases "ns = []")
  case True
  then show ?thesis by simp
next
  case False
  with assms obtain parts numbers
    where c: "collect (map part_numbers parts) = Inr numbers"
      and ns: "ns = sort (remdups (concat numbers))"
    by (auto simp: parse_classes_def Let_def split: if_splits sum.splits)
  from collect_Inr [OF c] have "map part_numbers parts = map Inr numbers" .
  then have "set (map Inr numbers) = set (map part_numbers parts)" by simp
  then have "Inr ` set numbers = part_numbers ` set parts" by simp
  then have "\<exists>part. part_numbers part = Inr k" if "k \<in> set numbers" for k
    using that by (metis (no_types, lifting) image_iff)
  then have "list_all valid_nice_class k" if "k \<in> set numbers" for k
    using that part_numbers_valid by blast
  then have "list_all valid_nice_class (concat numbers)"
    by (auto simp: list_all_iff)
  with ns show ?thesis by (simp add: list_all_iff)
qed

lemma keep_first_subset: "set (keep_first key seen xs) \<subseteq> set xs"
  by (induction xs arbitrary: seen) auto

text \<open>
  Claim C2, as amended.  For every legacy frame and every row of the transformed output:
  each date field (\<open>filing_date\<close>, \<open>grant_date\<close>, \<open>created_on\<close>, \<open>due_date\<close>) is an
  ISO-8601 date string or null (the parser returning calendar dates); the client's
  \<open>country_code\<close> is an alpha-2 code or null; a patent's \<open>jurisdiction\<close> is what the
  configured jurisdiction map gives for the raw text; the trademark's \<open>nice_classes\<close> is a
  sorted list without duplicates of integers from 1 to 45; and the \<open>status\<close> field is
  the legacy status copied unchanged.
\<close>

theorem transform_fields_canonical:
  assumes wf: "\<forall>t e. parse t False False = Some e \<longrightarrow> valid_pdate e"
  shows
    "(transform_patents parse jurisdiction_map df client_map = Inr ps \<longrightarrow>
        list_all (\<lambda>p. iso_date_or_null (filing_date p) \<and> iso_date_or_null (grant_date p)) ps
        \<and> map jurisdiction ps = map (\<lambda>r. jurisdiction_map (py_str (r ''jurisdiction''))) (recs df)
        \<and> map status ps = map (df_get df ''status'') (recs df))
     \<and> (transform_trademarks parse df client_map = Inr ts \<longrightarrow>
        list_all (\<lambda>t. iso_date_or_null (filing_date t) \<and> sorted (nice_classes t)
                       \<and> distinct (nice_classes t)
                       \<and> list_all valid_nice_class (nice_classes t)) ts
        \<and> map status ts = map (df_get df ''status'') (recs df))
     \<and> (transform_clients parse df = Inr cs \<longrightarrow>
        list_all (\<lambda>c. alpha2_or_null (country_code c) \<and> iso_date_or_null (created_on c)) cs)
     \<and> (transform_deadlines parse df patent_map tm_map = Inr ds \<longrightarrow>
        list_all (\<lambda>d. iso_date_or_null (due_date d)) ds)"
proof (intro conjI impI)
  assume "transform_patents parse jurisdiction_map df client_map = Inr ps"
  then have ps: "ps = map (patent_of parse jurisdiction_map df client_map) (recs df)"
    by (auto simp: transform_patents_def split: if_splits)
  show "list_all (\<lambda>p. iso_date_or_null (filing_date p) \<and> iso_date_or_null (grant_date p)) ps"
    using to_date_iso [of parse, OF wf] by (simp add: ps list_all_iff patent_of_def)
  show "map jurisdiction ps = map (\<lambda>r. jurisdiction_map (py_str (r ''jurisdiction''))) (recs df)"
    by (simp add: ps patent_of_def)
  show "map status ps = map (df_get df ''status'') (recs df)"
    by (simp add: ps patent_of_def)
next
  assume "transform_trademarks parse df client_map = Inr ts"
  then obtain classes
    where c: "collect (map (\<lambda>r. parse_classes (r ''class'')) (recs df)) = Inr classes"
      and ts: "ts = map (\<lambda>(r, c). trademark_of parse df client_map r c) (zip (recs df) classes)"
    by (auto simp: transform_trademarks_def split: if_splits sum.splits)
  from collect_Inr [OF c]
  have m: "map (\<lambda>r. parse_classes (r ''class'')) (recs df) = map Inr classes" .
  then have len: "length (recs df) = length classes" by (rule map_eq_imp_length_eq)
  have ok: "sorted k \<and> distinct k \<and> list_all valid_nice_class k" if "k \<in> set classes" for k
  proof -
    from that have "Inr k \<in> set (map Inr classes)" by simp
    with m have "Inr k \<in> set (map (\<lambda>r. parse_classes (r ''class'')) (recs df))" by simp
    then obtain r where "parse_classes (r ''class'') = Inr k" by auto
    then show ?thesis by (rule parse_classes_canonical)
  qed
  show "list_all (\<lambda>t. iso_date_or_null (filing_date t) \<and> sorted (nice_classes t)
                       \<and> distinct (nice_classes t)
                       \<and> list_all valid_nice_class (nice_classes t)) ts"
    using to_date_iso [of parse, OF wf] ok
    by (auto simp: ts list_all_iff trademark_of_def dest: set_zip_rightD)
  have "map status ts = map (df_get df ''status'') (map fst (zip (recs df) classes))"
    by (simp add: ts trademark_of_def split_def)
  also have "map fst (zip (recs df) classes) = recs df"
    using len by simp
  finally show "map status ts = map (df_get df ''status'') (recs df)" .
next
  assume "transform_clients parse df = Inr cs"
  then have "cs = drop_duplicates external_ref (map (client_of parse df) (recs df))"
    by (auto simp: transform_clients_def split: if_splits)
  then have "set cs \<subseteq> set (map (client_of parse df) (recs df))"
    using keep_first_subset [of external_ref "[]" "map (client_of parse df) (recs df)"]
    by (simp only: drop_duplicates_def)
  then show "list_all (\<lambda>c. alpha2_or_null (country_code c) \<and> iso_date_or_null (created_on c)) cs"
    using to_date_iso [of parse, OF wf] iso2_alpha2
    by (auto simp: list_all_iff client_of_def)
next
  assume "transform_deadlines parse df patent_map tm_map = Inr ds"
  then have ds: "ds = map (deadline_of parse df patent_map tm_map) (recs df)"
    by (auto simp: transform_deadlines_def split: if_splits)
  show "list_all (\<lambda>d. iso_date_or_null (due_date d)) ds"
    using to_date_iso [of parse, OF wf] by (simp add: ds list_all_iff deadline_of_def)
qed

theorem transform_fields_canonical_witness:
  "(let df = \<lparr>cols = [''patent_id'', ''client_id'', ''title'', ''filing_date'', ''grant_date'',
                       ''jurisdiction'', ''status'', ''tm_id'', ''mark_text'', ''class'',
                       ''client_name'', ''country'', ''created_on'', ''dl_id'', ''related_type'',
                       ''related_id'', ''related_table'', ''due_date''],
               recs = [(\<lambda>c. NaN)(''status'' := Str ''Issued'',
                                   ''filing_date'' := Str ''05/01/2024'',
                                   ''related_type'' := Str ''patent'')]\<rparr>;
        ps = projr (transform_patents numeric_date_parser Map.empty df Map.empty);
        ts = projr (transform_trademarks numeric_date_parser df Map.empty);
        cs = projr (transform_clients numeric_date_parser df);
        ds = projr (transform_deadlines numeric_date_parser df Map.empty Map.empty)
    in list_all (\<lambda>p. iso_date_or_null (filing_date p) \<and> iso_date_or_null (grant_date p)) ps
       \<and> map status ps = map (df_get df ''status'') (recs df)
       \<and> list_all (\<lambda>t. sorted (nice_classes t) \<and> distinct (nice_classes t)) ts
       \<and> list_all (\<lambda>c. alpha2_or_null (country_code c)) cs
       \<and> list_all (\<lambda>d. iso_date_or_null (due_date d)) ds)"
proof -
  define df :: "cell frame" where
    "df = \<lparr>cols = [''patent_id'', ''client_id'', ''title'', ''filing_date'', ''grant_date'',
                       ''jurisdiction'', ''status'', ''tm_id'', ''mark_text'', ''class'',
                       ''client_name'', ''country'', ''created_on'', ''dl_id'', ''related_type'',
                       ''related_id'', ''related_table'', ''due_date''],
               recs = [(\<lambda>c. NaN)(''status'' := Str ''Issued'',
                                   ''filing_date'' := Str ''05/01/2024'',
                                   ''related_type'' := Str ''patent'')]\<rparr>"
  have wf: "\<forall>t e. numeric_date_parser t False False = Some e \<longrightarrow> valid_pdate e"
    by (auto dest: numeric_date_parser_valid)
  have p: "transform_patents numeric_date_parser Map.empty df Map.empty
             = Inr (projr (transform_patents numeric_date_parser Map.empty df Map.empty))"
    by (simp add: transform_patents_def df_def)
  have t: "transform_trademarks numeric_date_parser df Map.empty
             = Inr (projr (transform_trademarks numeric_date_parser df Map.empty))"
    by (simp add: transform_trademarks_def df_def parse_classes_def)
  have c: "transform_clients numeric_date_parser df
             = Inr (projr (transform_clients numeric_date_parser df))"
    by (simp add: transform_clients_def df_def)
  have d: "transform_deadlines numeric_date_parser df Map.empty Map.empty
             = Inr (projr (transform_deadlines numeric_date_parser df Map.empty Map.empty))"
    by (simp add: transform_deadlines_def df_def str_dtype_def column_def)
  note th = transform_fields_canonical [of numeric_date_parser Map.empty df Map.empty
      "projr (transform_patents numeric_date_parser Map.empty df Map.empty)"
      "projr (transform_trademarks numeric_date_parser df Map.empty)"
      "projr (transform_clients numeric_date_parser df)" Map.empty Map.empty
      "projr (transform_deadlines numeric_date_parser df Map.empty Map.empty)", OF wf]
  from th p t c d show ?thesis
    unfolding Let_def df_def [symmetric] by (simp add: list_all_iff)
qed

text \<open>
  Claim C2, as stated, fails for the status field: the transforms copy the legacy status,
  here \<open>Issued\<close>, which is not a canonical status of patents.
\<close>

theorem transform_status_counterexample:
  "map status (projr (transform_patents numeric_date_parser Map.empty
      \<lparr>cols = [''patent_id'', ''client_id'', ''title'', ''filing_date'', ''grant_date'',
               ''jurisdiction'', ''status''],
       recs = [(\<lambda>c. NaN)(''patent_id'' := Str ''PT-0001'', ''status'' := Str ''Issued'')]\<rparr>
      Map.empty))
     = [Str ''Issued'']
   \<and> ''Issued'' \<notin> set (canonical_statuses ''patent'')"
proof -
  have "''Issued'' \<notin> set (canonical_statuses ''patent'')" by code_simp
  then show ?thesis
    by (simp add: transform_patents_def patent_of_def df_get_def)
qed

section \<open>Properties of upsert\_dataframe\<close>

lemma insert_on_conflict_keys:
  "keys_of uc (insert_on_conflict uc ucols p ts) =
     (if p uc \<noteq> None \<and> p uc \<in> set (keys_of uc ts) then keys_of uc ts
      else keys_of uc ts @ [p uc])"
  by (induction ts) (auto simp: keys_of_def do_update_def)

lemma execute_many_keeps:
  "set (keys_of uc tb) \<subseteq> set (keys_of uc (execute_many uc ucols collist rs tb))"
  unfolding execute_many_def
  by (induction rs arbitrary: tb) (force simp: insert_on_conflict_keys)+

lemma execute_many_adds:
  "r \<in> set rs \<Longrightarrow>
   proposed collist r uc \<in> set (keys_of uc (execute_many uc ucols collist rs tb))"
  unfolding execute_many_def
proof (induction rs arbitrary: tb)
  case Nil
  then show ?case by simp
next
  case (Cons a rs)
  let ?tb = "insert_on_conflict uc ucols (proposed collist a) tb"
  from Cons.prems have "r = a \<or> r \<in> set rs" by simp
  then show ?case
  proof
    assume "r = a"
    then have "proposed collist r uc \<in> set (keys_of uc ?tb)"
      by (simp add: insert_on_conflict_keys)
    then show ?thesis
      using execute_many_keeps [of uc ?tb ucols collist rs]
      by (auto simp: execute_many_def)
  next
    assume "r \<in> set rs"
    then show ?thesis using Cons.IH [of ?tb] by simp
  qed
qed

lemma execute_many_present:
  "\<forall>r \<in> set rs. proposed collist r uc \<noteq> None \<and> proposed collist r uc \<in> set (keys_of uc tb) \<Longrightarrow>
   keys_of uc (execute_many uc ucols collist rs tb) = keys_of uc tb"
  unfolding execute_many_def
  by (induction rs arbitrary: tb) (simp_all add: insert_on_conflict_keys)

text \<open>
  Claim C3, as amended.  \<open>upsert_dataframe\<close> reports \<open>(len(df), 0)\<close> as the
  \<open>(inserted, updated)\<close> counts of every non-empty frame, whether or not the rows exist in
  the table, and \<open>(0, 0)\<close> for an empty one; these are the counts written to
  \<open>migration_row_counts\<close>.  The table itself gains no row on a second run against the
  store the first run left: with the unique column among the frame's columns, the keys
  and the number of rows of the table are the same after the second run as after the first.
\<close>

theorem upsert_counts_rows:
  "snd (upsert_dataframe conn df table unique_col update_cols)
     = (if df_empty df then (0, 0) else (length (recs df), 0))
   \<and> (unique_col \<in> set (cols df) \<longrightarrow>
        (let conn1 = fst (upsert_dataframe conn df table unique_col update_cols);
             conn2 = fst (upsert_dataframe conn1 df table unique_col update_cols)
         in keys_of unique_col (conn2 table) = keys_of unique_col (conn1 table)
            \<and> length (conn2 table) = length (conn1 table)))"
proof (intro conjI impI)
  show "snd (upsert_dataframe conn df table unique_col update_cols)
     = (if df_empty df then (0, 0) else (length (recs df), 0))"
    by (simp add: upsert_dataframe_def)
next
  assume uc: "unique_col \<in> set (cols df)"
  let ?t1 = "execute_many unique_col update_cols (cols df) (recs df) (conn table)"
  have "\<forall>r \<in> set (recs df). proposed (cols df) r unique_col \<noteq> None
          \<and> proposed (cols df) r unique_col \<in> set (keys_of unique_col ?t1)"
    using uc execute_many_adds [of _ "recs df" "cols df" unique_col update_cols "conn table"]
    by (auto simp: proposed_def)
  then have k: "keys_of unique_col (execute_many unique_col update_cols (cols df) (recs df) ?t1)
                  = keys_of unique_col ?t1"
    by (rule execute_many_present)
  then have l: "length (execute_many unique_col update_cols (cols df) (recs df) ?t1) = length ?t1"
    unfolding keys_of_def by (rule map_eq_imp_length_eq)
  show "let conn1 = fst (upsert_dataframe conn df table unique_col update_cols);
            conn2 = fst (upsert_dataframe conn1 df table unique_col update_cols)
        in keys_of unique_col (conn2 table) = keys_of unique_col (conn1 table)
           \<and> length (conn2 table) = length (conn1 table)"
    using k l by (simp add: upsert_dataframe_def Let_def)
qed

theorem upsert_counts_rows_witness:
  "(let df = \<lparr>cols = [''external_ref'', ''name''],
               recs = [(\<lambda>c. ''x'')(''external_ref'' := ''CL-0001'', ''name'' := ''Acme''),
                       (\<lambda>c. ''x'')(''external_ref'' := ''CL-0002'', ''name'' := ''Apex'')]\<rparr>;
        conn1 = fst (upsert_dataframe (\<lambda>t. []) df ''clients'' ''external_ref'' [''name'']);
        conn2 = fst (upsert_dataframe conn1 df ''clients'' ''external_ref'' [''name''])
    in ''external_ref'' \<in> set (cols df)
       \<and> snd (upsert_dataframe conn1 df ''clients'' ''external_ref'' [''name'']) = (2, 0)
       \<and> length (conn2 ''clients'') = length (conn1 ''clients''))"
proof -
  define df :: "string frame" where
    "df = \<lparr>cols = [''external_ref'', ''name''],
               recs = [(\<lambda>c. ''x'')(''external_ref'' := ''CL-0001'', ''name'' := ''Acme''),
                       (\<lambda>c. ''x'')(''external_ref'' := ''CL-0002'', ''name'' := ''Apex'')]\<rparr>"
  define conn1 where
    "conn1 = fst (upsert_dataframe (\<lambda>t. []) df ''clients'' ''external_ref'' [''name''])"
  have u: "''external_ref'' \<in> set (cols df)" by (simp add: df_def)
  have e: "\<not> df_empty df" "length (recs df) = 2" by (simp_all add: df_def df_empty_def)
  from u e show ?thesis
    using upsert_counts_rows [of "\<lambda>t. []" df "''clients''" "''external_ref''" "[''name'']"]
      upsert_counts_rows [of conn1 df "''clients''" "''external_ref''" "[''name'']"]
    unfolding Let_def df_def [symmetric] conn1_def [symmetric] by simp
qed

text \<open>
  Claim C3, as stated, fails: on a second run, when the row's \<open>external_ref\<close> is in the
  table already, the reported count of inserted rows is 1, not 0.
\<close>

theorem upsert_second_run_counterexample:
  "keys_of ''external_ref''
     (fst (upsert_dataframe (\<lambda>t. [])
        \<lparr>cols = [''external_ref'', ''name''],
         recs = [(\<lambda>c. ''x'')(''external_ref'' := ''CL-0001'', ''name'' := ''Acme'')]\<rparr>
        ''clients'' ''external_ref'' [''name'']) ''clients'')
     = [Some ''CL-0001'']
   \<and> snd (upsert_dataframe
        (fst (upsert_dataframe (\<lambda>t. [])
           \<lparr>cols = [''external_ref'', ''name''],
            recs = [(\<lambda>c. ''x'')(''external_ref'' := ''CL-0001'', ''name'' := ''Acme'')]\<rparr>
           ''clients'' ''external_ref'' [''name'']))
        \<lparr>cols = [''external_ref'', ''name''],
         recs = [(\<lambda>c. ''x'')(''external_ref'' := ''CL-0001'', ''name'' := ''Acme'')]\<rparr>
        ''clients'' ''external_ref'' [''name''])
     = (1, 0)"
  by (simp add: upsert_dataframe_def df_empty_def execute_many_def proposed_def keys_of_def)

section \<open>Properties of validate\_data\_quality\<close>

lemma length_filter_split:
  "length (filter (\<lambda>r. isna (g r)) rs) + length (filter (\<lambda>r. g r = Str []) rs)
     = length (filter (\<lambda>r. cell_missing (g r)) rs)"
proof (induction rs)
  case Nil
  then show ?case by simp
next
  case (Cons a rs)
  then show ?case by (cases "g a") (auto simp: cell_missing_def)
qed

lemma count_missing_cells:
  "count_missing df field = length (filter (\<lambda>r. cell_missing (r field)) (recs df))"
  using length_filter_split [of "\<lambda>r. r field" "recs df"]
  by (simp add: count_missing_def column_def filter_map comp_def)

lemma missing_critical_count_code:
  "missing_critical_count df et = missing_fields df (critical_fields et)"
proof -
  have "count_missing df = (\<lambda>field. length (filter (\<lambda>r. cell_missing (r field)) (recs df)))"
    by (rule ext) (rule count_missing_cells)
  then show ?thesis
    by (simp add: missing_critical_count_def missing_fields_def)
qed

lemma invalid_date_count_code:
  "invalid_date_count parse df et = invalid_date_fields parse df (date_fields et)"
proof -
  have "count_invalid_dates parse df
          = (\<lambda>field. length (filter (\<lambda>r. truthy (r field) \<and> to_date parse (r field) = None)
                                    (recs df)))"
    by (rule ext) (simp add: count_invalid_dates_def column_def filter_map comp_def)
  then show ?thesis
    by (simp add: invalid_date_count_def invalid_date_fields_def)
qed

lemma length_filter_compl:
  "length xs - length (filter P xs) = length (filter (\<lambda>x. \<not> P x) xs)"
  using sum_length_filter_compl [of P xs] by simp

lemma invalid_email_count_code:
  "invalid_email_count df et = (if et = ''clients'' then count_invalid_emails df else 0)"
  using length_filter_compl
    [of "recs df" "\<lambda>r. truthy (r ''email'') \<and> parse_email (r ''email'') \<noteq> []"]
  by (simp add: invalid_email_count_def count_invalid_emails_def column_def filter_map comp_def)

lemma duplicate_ref_count_code: "duplicate_ref_count df = count_duplicates df"
  by (simp add: duplicate_ref_count_def count_duplicates_def duplicated_count_def
      length_remdups_card_conv column_def)

lemma missing_fields_none: "missing_fields df [] = 0"
  by (simp add: missing_fields_def present_fields_def)

lemma invalid_date_fields_none: "invalid_date_fields parse df [] = 0"
  by (simp add: invalid_date_fields_def present_fields_def)


lemma total_issues_of_code:
  "total_issues_of parse df et
     = (if et = ''clients''
        then missing_fields df [''client_name'', ''email''] + count_invalid_emails df
        else if et \<in> set [''patents'', ''trademarks'', ''copyrights'']
        then missing_fields df [''title'', ''client_id'', ''status'']
             + invalid_date_fields parse df [''filing_date'', ''grant_date'', ''registration_date'']
        else 0)
       + count_duplicates df"
  by (simp add: total_issues_of_def missing_critical_count_code invalid_date_count_code
      invalid_email_count_code duplicate_ref_count_code critical_fields_def date_fields_def
      missing_fields_none invalid_date_fields_none)

lemma quality_score_total:
  "recs df \<noteq> [] \<Longrightarrow>
   quality_score (validate_data_quality ar parse df et)
     = round2 ar (score_of ar (total_issues_of parse df et) (length (recs df)))"
  by (simp add: validate_data_quality_def total_issues_of_code Let_def)




lemma cols_add_row: "cols (add_row df r) = cols df"
  by (simp add: add_row_def)

lemma recs_add_row: "recs (add_row df r) = recs df @ [r]"
  by (simp add: add_row_def)

lemma column_add_row: "column (add_row df r) c = column df c @ [r c]"
  by (simp add: column_def add_row_def)

lemma count_missing_add_row:
  "count_missing (add_row df r) f
     = count_missing df f + (if isna (r f) \<or> r f = Str [] then 1 else 0)"
  by (cases "r f") (auto simp: count_missing_def column_add_row)

lemma present_fields_add_row: "present_fields (add_row df r) fs = present_fields df fs"
  by (simp add: present_fields_def cols_add_row)

lemma sum_list_map_mono:
  "(\<And>x. x \<in> set xs \<Longrightarrow> f x \<le> (g x :: nat)) \<Longrightarrow> sum_list (map f xs) \<le> sum_list (map g xs)"
  by (induction xs) (auto intro: add_mono)

lemma sum_list_map_strict:
  assumes "\<And>x. x \<in> set xs \<Longrightarrow> f x \<le> (g x :: nat)" and "y \<in> set xs" and "f y < g y"
  shows "sum_list (map f xs) < sum_list (map g xs)"
  using assms
proof (induction xs)
  case Nil
  then show ?case by simp
next
  case (Cons a xs)
  show ?case
  proof (cases "y = a")
    case True
    with Cons.prems have "f a < g a" by simp
    moreover have "sum_list (map f xs) \<le> sum_list (map g xs)"
      using Cons.prems by (intro sum_list_map_mono) simp
    ultimately show ?thesis by simp
  next
    case False
    with Cons.prems have "y \<in> set xs" by simp
    then have "sum_list (map f xs) < sum_list (map g xs)"
      using Cons.prems by (intro Cons.IH) simp_all
    moreover have "f a \<le> g a" using Cons.prems by simp
    ultimately show ?thesis by simp
  qed
qed

lemma missing_fields_mono: "missing_fields df fs \<le> missing_fields (add_row df r) fs"
  unfolding missing_fields_def present_fields_add_row
  by (rule sum_list_map_mono) (simp add: count_missing_add_row)

lemma missing_fields_strict:
  assumes "f \<in> set fs" "f \<in> set (cols df)" "isna (r f) \<or> r f = Str []"
  shows "missing_fields df fs < missing_fields (add_row df r) fs"
  unfolding missing_fields_def present_fields_add_row
proof (rule sum_list_map_strict)
  show "count_missing df x \<le> count_missing (add_row df r) x" for x
    by (simp add: count_missing_add_row)
  show "f \<in> set (present_fields df fs)" using assms by (simp add: present_fields_def)
  show "count_missing df f < count_missing (add_row df r) f"
    using assms by (simp add: count_missing_add_row)
qed

lemma invalid_date_fields_mono:
  "invalid_date_fields parse df fs \<le> invalid_date_fields parse (add_row df r) fs"
  unfolding invalid_date_fields_def present_fields_add_row
  by (rule sum_list_map_mono) (simp add: count_invalid_dates_def column_add_row)

lemma count_invalid_emails_mono: "count_invalid_emails df \<le> count_invalid_emails (add_row df r)"
proof -
  have "length (filter P (column df c)) \<le> length (column df c)" for P c
    by simp
  then show ?thesis
    by (auto simp: count_invalid_emails_def cols_add_row recs_add_row column_add_row)
qed

lemma duplicated_count_snoc: "duplicated_count xs \<le> duplicated_count (xs @ [x])"
proof -
  have "card (set (xs @ [x])) \<le> Suc (card (set xs))"
    by (simp add: card_insert_le_m1)
  then show ?thesis
    by (simp add: duplicated_count_def length_remdups_card_conv)
qed

lemma count_duplicates_mono: "count_duplicates df \<le> count_duplicates (add_row df r)"
  by (simp add: count_duplicates_def cols_add_row column_add_row duplicated_count_snoc)

lemma total_issues_add_row:
  assumes "missing_critical df et r"
  shows "Suc (total_issues_of parse df et) \<le> total_issues_of parse (add_row df r) et"
proof -
  from assms obtain f where f: "f \<in> set (critical_fields et)" "f \<in> set (cols df)"
    "isna (r f) \<or> r f = Str []"
    by (auto simp: missing_critical_def list_ex_iff)
  note d = count_duplicates_mono [of df r]
  note e = count_invalid_emails_mono [of df r]
  show ?thesis
  proof (cases "et = ''clients''")
    case True
    with f have "f \<in> set [''client_name'', ''email'']" by (simp add: critical_fields_def)
    from missing_fields_strict [of f "[''client_name'', ''email'']" df r, OF this f(2) f(3)]
      d e True show ?thesis
      by (simp add: total_issues_of_code)
  next
    case False
    show ?thesis
    proof (cases "et \<in> set [''patents'', ''trademarks'', ''copyrights'']")
      case True
      with f False have "f \<in> set [''title'', ''client_id'', ''status'']"
        by (simp add: critical_fields_def)
      from missing_fields_strict [of f "[''title'', ''client_id'', ''status'']" df r,
          OF this f(2) f(3)] d False True
        invalid_date_fields_mono [of parse df "[''filing_date'', ''grant_date'', ''registration_date'']" r]
      show ?thesis
        by (simp add: total_issues_of_code)
    next
      case no: False
      with f False show ?thesis by (simp add: critical_fields_def)
    qed
  qed
qed

lemma score_of_zero:
  assumes "float_laws ar" "0 < n" "n \<le> k"
  shows "score_of ar k n = 0"
proof -
  from assms have m: "\<And>x y. x \<le> y \<Longrightarrow> fl ar x \<le> fl ar y"
    and c: "fl ar 0 = 0" "fl ar 1 = 1" "fl ar 100 = 100"
    by (auto simp: float_laws_def)
  from assms have "(1::rat) \<le> of_nat k / of_nat n" by simp
  then have "1 \<le> fl ar (of_nat k / of_nat n)" using m [of 1] c by simp
  then have "100 \<le> fl ar (of_nat k / of_nat n) * 100" by simp
  then have "100 \<le> fl ar (fl ar (of_nat k / of_nat n) * 100)" using m [of 100] c by simp
  then have "100 - fl ar (fl ar (of_nat k / of_nat n) * 100) \<le> 0" by simp
  then have "fl ar (100 - fl ar (fl ar (of_nat k / of_nat n) * 100)) \<le> 0"
    using m [of _ 0] c by simp
  then show ?thesis by (simp add: score_of_def)
qed

lemma score_of_antitone:
  assumes "float_laws ar" "(of_nat k :: rat) / of_nat n \<le> of_nat k' / of_nat n'"
  shows "score_of ar k' n' \<le> score_of ar k n"
proof -
  from assms have m: "\<And>x y. x \<le> y \<Longrightarrow> fl ar x \<le> fl ar y"
    by (auto simp: float_laws_def)
  from assms have "fl ar (of_nat k / of_nat n) \<le> fl ar (of_nat k' / of_nat n')" by (intro m)
  then have "fl ar (of_nat k / of_nat n) * 100 \<le> fl ar (of_nat k' / of_nat n') * 100" by simp
  then have "fl ar (fl ar (of_nat k / of_nat n) * 100) \<le> fl ar (fl ar (of_nat k' / of_nat n') * 100)"
    by (intro m)
  then have "100 - fl ar (fl ar (of_nat k' / of_nat n') * 100)
               \<le> 100 - fl ar (fl ar (of_nat k / of_nat n) * 100)" by simp
  then have "fl ar (100 - fl ar (fl ar (of_nat k' / of_nat n') * 100))
               \<le> fl ar (100 - fl ar (fl ar (of_nat k / of_nat n) * 100))" by (intro m)
  then show ?thesis by (simp add: score_of_def max_def)
qed

lemma ratio_grows:
  assumes "0 < n" "k \<le> n" "Suc k \<le> k'"
  shows "(of_nat k :: rat) / of_nat n \<le> of_nat k' / of_nat (Suc n)"
proof -
  have "k * Suc n = k * n + k" by simp
  also have "\<dots> \<le> k * n + n" using assms by simp
  also have "\<dots> = Suc k * n" by simp
  also have "\<dots> \<le> k' * n" using assms by (intro mult_le_mono1)
  finally have "k * Suc n \<le> k' * n" .
  then have "(of_nat (k * Suc n) :: rat) \<le> of_nat (k' * n)" by (simp only: of_nat_le_iff)
  then have "(of_nat k :: rat) * of_nat (Suc n) \<le> of_nat k' * of_nat n" by (simp only: of_nat_mult)
  moreover have "(0::rat) < of_nat n" "(0::rat) < of_nat (Suc n)" using assms by simp_all
  ultimately show ?thesis by (simp add: frac_le_eq divide_le_0_iff field_simps)
qed

text \<open>
  Claim C7, as amended.  For every dataset, entity type and added row whose cell in a
  critical field that is a column of the dataset is missing or empty (the rows that the
  scorer counts as missing a critical field), the quality score of the dataset with the
  row added is at most the quality score of the dataset without it (for any arithmetic
  whose roundings are monotone and exact at 0, 1 and 100).
\<close>

theorem quality_score_monotone:
  assumes "float_laws ar" and "missing_critical df entity_type r"
  shows "quality_score (validate_data_quality ar parse (add_row df r) entity_type)
           \<le> quality_score (validate_data_quality ar parse df entity_type)"
proof -
  let ?k = "total_issues_of parse df entity_type"
  let ?k' = "total_issues_of parse (add_row df r) entity_type"
  let ?n = "length (recs df)"
  from assms(1) have rm: "\<And>x y. x \<le> y \<Longrightarrow> round2 ar x \<le> round2 ar y"
    and r0: "round2 ar 0 = 0"
    by (auto simp: float_laws_def)
  have k: "Suc ?k \<le> ?k'" by (rule total_issues_add_row [OF assms(2)])
  have ne: "recs (add_row df r) \<noteq> []" by (simp add: recs_add_row)
  have new: "quality_score (validate_data_quality ar parse (add_row df r) entity_type)
               = round2 ar (score_of ar ?k' (Suc ?n))"
    using quality_score_total [OF ne, of ar parse entity_type] by (simp add: recs_add_row)
  show ?thesis
  proof (cases "recs df = []")
    case True
    from k have "score_of ar ?k' (Suc ?n) = 0"
      using True by (intro score_of_zero [OF assms(1)]) simp_all
    with new r0 True show ?thesis by (simp add: validate_data_quality_def)
  next
    case False
    then have old: "quality_score (validate_data_quality ar parse df entity_type)
                      = round2 ar (score_of ar ?k ?n)"
      by (rule quality_score_total)
    from False have n: "0 < ?n" by simp
    show ?thesis
    proof (cases "?k \<le> ?n")
      case True
      from ratio_grows [OF n True k] have "score_of ar ?k' (Suc ?n) \<le> score_of ar ?k ?n"
        by (rule score_of_antitone [OF assms(1)])
      with new old show ?thesis by (simp add: rm)
    next
      case over: False
      with n have "score_of ar ?k ?n = 0" by (intro score_of_zero [OF assms(1)]) simp_all
      moreover from over k have "score_of ar ?k' (Suc ?n) = 0"
        by (intro score_of_zero [OF assms(1)]) simp_all
      ultimately show ?thesis using new old by simp
    qed
  qed
qed


lemma round_half_even_mono: "x \<le> y \<Longrightarrow> round_half_even x \<le> round_half_even y"
proof -
  assume xy: "x \<le> y"
  have fg: "\<lfloor>x\<rfloor> \<le> \<lfloor>y\<rfloor>" using xy by (rule floor_mono)
  show ?thesis
  proof (cases "\<lfloor>x\<rfloor> = \<lfloor>y\<rfloor>")
    case True
    then have "x - of_int \<lfloor>x\<rfloor> \<le> y - of_int \<lfloor>y\<rfloor>" using xy by simp
    with True show ?thesis
      unfolding round_half_even_def Let_def by auto
  next
    case False
    with fg have "\<lfloor>x\<rfloor> + 1 \<le> \<lfloor>y\<rfloor>" by simp
    then show ?thesis
      unfolding round_half_even_def Let_def by auto
  qed
qed

lemma exact_round2_mono: "x \<le> y \<Longrightarrow> exact_round2 x \<le> exact_round2 y"
proof -
  assume "x \<le> y"
  then have "x * 100 \<le> y * 100" by simp
  then have "round_half_even (x * 100) \<le> round_half_even (y * 100)"
    by (rule round_half_even_mono)
  then have "(of_int (round_half_even (x * 100)) :: rat) \<le> of_int (round_half_even (y * 100))"
    by simp
  then show ?thesis by (simp add: exact_round2_def divide_right_mono)
qed

lemma float_laws_exact: "float_laws exact_arith"
  by (simp add: float_laws_def exact_arith_def exact_round2_mono)
    (simp add: exact_round2_def round_half_even_def)

theorem quality_score_monotone_witness:
  "float_laws exact_arith
   \<and> missing_critical
        \<lparr>cols = [''client_name'', ''email''],
         recs = [(\<lambda>c. NaN)(''client_name'' := Str ''Acme'', ''email'' := Str ''a@b.co''),
                 (\<lambda>c. NaN)(''client_name'' := Str ''Apex'', ''email'' := Str ''bad'')]\<rparr>
        ''clients'' ((\<lambda>c. NaN)(''client_name'' := Str [], ''email'' := Str ''c@d.org''))
   \<and> quality_score (validate_data_quality exact_arith numeric_date_parser
        (add_row
          \<lparr>cols = [''client_name'', ''email''],
           recs = [(\<lambda>c. NaN)(''client_name'' := Str ''Acme'', ''email'' := Str ''a@b.co''),
                   (\<lambda>c. NaN)(''client_name'' := Str ''Apex'', ''email'' := Str ''bad'')]\<rparr>
          ((\<lambda>c. NaN)(''client_name'' := Str [], ''email'' := Str ''c@d.org'')))
        ''clients'')
     \<le> quality_score (validate_data_quality exact_arith numeric_date_parser
        \<lparr>cols = [''client_name'', ''email''],
         recs = [(\<lambda>c. NaN)(''client_name'' := Str ''Acme'', ''email'' := Str ''a@b.co''),
                 (\<lambda>c. NaN)(''client_name'' := Str ''Apex'', ''email'' := Str ''bad'')]\<rparr>
        ''clients'')"
proof -
  have m: "missing_critical
        \<lparr>cols = [''client_name'', ''email''],
         recs = [(\<lambda>c. NaN)(''client_name'' := Str ''Acme'', ''email'' := Str ''a@b.co''),
                 (\<lambda>c. NaN)(''client_name'' := Str ''Apex'', ''email'' := Str ''bad'')]\<rparr>
        ''clients'' ((\<lambda>c. NaN)(''client_name'' := Str [], ''email'' := Str ''c@d.org''))"
    by (simp add: missing_critical_def critical_fields_def)
  from quality_score_monotone [OF float_laws_exact m, of numeric_date_parser] m float_laws_exact
  show ?thesis by blast
qed

text \<open>
  Claim C7, as stated, fails for a row that lacks a critical field because the dataset
  has no such column: the scorer skips a critical field that is no column.  A patents
  dataset with the columns \<open>patent_id\<close> and \<open>title\<close> and one row without title scores
  0; with a second row added, which has a title and lacks \<open>client_id\<close> and \<open>status\<close>,
  it scores 50.
\<close>

theorem quality_score_rises_counterexample:
  "lacks_critical_field
     \<lparr>cols = [''patent_id'', ''title''],
      recs = [(\<lambda>c. NaN)(''patent_id'' := Str ''PT-0001'', ''title'' := Str [])]\<rparr>
     ''patents'' ((\<lambda>c. NaN)(''patent_id'' := Str ''PT-0002'', ''title'' := Str ''Pump''))
   \<and> quality_score (validate_data_quality exact_arith numeric_date_parser
        \<lparr>cols = [''patent_id'', ''title''],
         recs = [(\<lambda>c. NaN)(''patent_id'' := Str ''PT-0001'', ''title'' := Str [])]\<rparr>
        ''patents'') = 0
   \<and> quality_score (validate_data_quality exact_arith numeric_date_parser
        (add_row
          \<lparr>cols = [''patent_id'', ''title''],
           recs = [(\<lambda>c. NaN)(''patent_id'' := Str ''PT-0001'', ''title'' := Str [])]\<rparr>
          ((\<lambda>c. NaN)(''patent_id'' := Str ''PT-0002'', ''title'' := Str ''Pump'')))
        ''patents'') = 50"
  by code_simp

section \<open>Properties of the validator\<close>

text \<open>
  Claim C5 asks that the system score is the mean of the overall scores of every entity
  validated successfully, a score of 0 included.  In the example store the clients are
  validated successfully with overall score 0 and the patents with 100, the two other
  files are missing: \<open>validate_all\<close> reports 100, the mean over the non-zero scores,
  where the mean over the successful entities is 50.
\<close>

theorem validate_all_drops_zero_score:
  "map (\<lambda>r. (fst r, result_status (snd r), result_overall_score (snd r)))
       (results (validate_all exact_arith numeric_date_parser example_world))
     = [(''clients'', ''success'', Some 0), (''patents'', ''success'', Some 100),
        (''trademarks'', ''error'', None), (''deadlines'', ''error'', None)]
   \<and> system_quality_score (validate_all exact_arith numeric_date_parser example_world) = 100
   \<and> system_score_spec exact_arith
         (results (validate_all exact_arith numeric_date_parser example_world)) = 50"
  by code_simp







end
